theory Spec2Isabelle
  imports Complex_Main "HOL-Library.Monad_Syntax"
begin

section \<open>JavaScript numbers and exceptions\<close>

text \<open>
  A JavaScript \<open>number\<close> is modelled as a real, or \<open>NaN\<close>. \<open>NaN\<close> also stands for
  \<open>undefined\<close> wherever the program uses the value only in arithmetic and comparisons
  (an array read past the end, the time of an invalid \<open>Date\<close>): \<open>undefined\<close> converts
  to \<open>NaN\<close> there. Rounding error and the infinities of IEEE doubles are not modelled.
  A function that can throw returns an \<open>option\<close>; \<open>None\<close> is the thrown exception.
\<close>

datatype number = Num real | NaN

fun num_le :: "number \<Rightarrow> number \<Rightarrow> bool" where
  "num_le (Num a) (Num b) = (a \<le> b)"
| "num_le _ _ = False"

fun num_lt :: "number \<Rightarrow> number \<Rightarrow> bool" where
  "num_lt (Num a) (Num b) = (a < b)"
| "num_lt _ _ = False"

definition num_ge :: "number \<Rightarrow> number \<Rightarrow> bool" where
  "num_ge a b = num_le b a"

definition num_gt :: "number \<Rightarrow> number \<Rightarrow> bool" where
  "num_gt a b = num_lt b a"

fun num_eq :: "number \<Rightarrow> number \<Rightarrow> bool" where
  "num_eq (Num a) (Num b) = (a = b)"
| "num_eq _ _ = False"

fun num_add :: "number \<Rightarrow> number \<Rightarrow> number" where
  "num_add (Num a) (Num b) = Num (a + b)"
| "num_add _ _ = NaN"

fun num_sub :: "number \<Rightarrow> number \<Rightarrow> number" where
  "num_sub (Num a) (Num b) = Num (a - b)"
| "num_sub _ _ = NaN"

fun num_mul :: "number \<Rightarrow> number \<Rightarrow> number" where
  "num_mul (Num a) (Num b) = Num (a * b)"
| "num_mul _ _ = NaN"

text \<open>Division is only ever by the literals 11 and 100 in this program.\<close>

fun num_div :: "number \<Rightarrow> number \<Rightarrow> number" where
  "num_div (Num a) (Num b) = (if b = 0 then NaN else Num (a / b))"
| "num_div _ _ = NaN"

fun num_abs :: "number \<Rightarrow> number" where
  "num_abs (Num a) = Num \<bar>a\<bar>"
| "num_abs NaN = NaN"

text \<open>\<open>Math.round\<close>: the nearest integer, a tie going up.\<close>

definition Math_round :: "real \<Rightarrow> int" where
  "Math_round x = \<lfloor>x + 1 / 2\<rfloor>"

text \<open>An array read \<open>xs[i]\<close>: \<open>undefined\<close> past the end.\<close>

definition at_index :: "'a list \<Rightarrow> nat \<Rightarrow> 'a option" where
  "at_index xs i = (if i < length xs then Some (xs ! i) else None)"

definition num_at :: "real list \<Rightarrow> nat \<Rightarrow> number" where
  "num_at xs i = (case at_index xs i of Some x \<Rightarrow> Num x | None \<Rightarrow> NaN)"

section \<open>scoring.ts: data\<close>

datatype Mode = Running | Walking | Cycling | Stargazing | Dog_walking

datatype Rating = Excellent | Good | Fair | Poor

text \<open>
  The result of \<open>computeDaylight\<close> and \<open>computeDarkness\<close>; \<open>HourlyData\<close> has the
  same two fields and takes them from such a result by \<open>...dl\<close>, so it is modelled as an
  extension of this record, and \<open>ScoredHour extends HourlyData\<close> as a further extension.
  \<open>cloud_cover\<close> and \<open>visibility\<close> are optional fields: \<open>None\<close> is \<open>undefined\<close>.
\<close>

record Daylight =
  is_daylight :: bool
  daylight_factor :: real

record HourlyData = Daylight +
  time :: string
  temperature :: number
  humidity :: number
  feels_like :: number
  weather_code :: number
  wind_speed :: number
  uv_index :: number
  precipitation_probability :: number
  cloud_cover :: "number option"
  visibility :: "number option"

record ScoredHour = HourlyData +
  score :: real
  rating :: Rating

section \<open>scoring.ts: curves\<close>

text \<open>\<open>clamp(v, lo = 0, hi = 100)\<close>; every call in the program leaves the defaults.\<close>

definition clamp :: "real \<Rightarrow> real \<Rightarrow> real \<Rightarrow> real" where
  "clamp v lo hi = max lo (min hi v)"

text \<open>
  The \<open>for\<close> loop of \<open>interpolate\<close> over the segments \<open>bp[i], bp[i + 1]\<close>; \<open>None\<close> when
  the loop ends without returning. Every comparison with \<open>NaN\<close> is false.
\<close>

fun interpolate_loop :: "number \<Rightarrow> (real \<times> real) list \<Rightarrow> real option" where
  "interpolate_loop (Num v) ((x0, y0) # (x1, y1) # rest) =
     (if x0 \<le> v \<and> v \<le> x1
      then (let t = (if x1 \<noteq> x0 then (v - x0) / (x1 - x0) else 0) in Some (y0 + t * (y1 - y0)))
      else interpolate_loop (Num v) ((x1, y1) # rest))"
| "interpolate_loop _ _ = None"

text \<open>\<open>bp[0][0]\<close> on an empty table throws a TypeError.\<close>

definition interpolate :: "number \<Rightarrow> (real \<times> real) list \<Rightarrow> real option" where
  "interpolate v bp =
     (case bp of
        [] \<Rightarrow> None
      | b0 # _ \<Rightarrow>
          if num_le v (Num (fst b0)) then Some (snd b0)
          else if num_ge v (Num (fst (last bp))) then Some (snd (last bp))
          else (case interpolate_loop v bp of
                  Some y \<Rightarrow> Some y
                | None \<Rightarrow> Some (snd (last bp))))"

text \<open>Every score curve of the program is \<open>(v) => clamp(interpolate(v, table))\<close>.\<close>

definition curve :: "(real \<times> real) list \<Rightarrow> number \<Rightarrow> real option" where
  "curve bp v = map_option (\<lambda>y. clamp y 0 100) (interpolate v bp)"

definition scoreTempRunning :: "number \<Rightarrow> real option" where
  "scoreTempRunning = curve [(10, 0), (20, 15), (30, 45), (40, 75), (50, 100), (60, 100), (70, 75), (80, 45), (90, 15), (100, 0)]"

definition scoreTempWalking :: "number \<Rightarrow> real option" where
  "scoreTempWalking = curve [(15, 0), (25, 10), (35, 30), (45, 60), (55, 100), (70, 100), (80, 70), (85, 45), (95, 15), (105, 0)]"

definition scoreHumidity :: "number \<Rightarrow> real option" where
  "scoreHumidity = curve [(0, 70), (30, 100), (50, 100), (65, 75), (80, 45), (85, 15), (100, 0)]"

definition scoreUV :: "number \<Rightarrow> real option" where
  "scoreUV = curve [(0, 100), (2, 100), (5, 75), (7, 45), (8, 15), (11, 0)]"

definition scoreWindRunning :: "number \<Rightarrow> real option" where
  "scoreWindRunning = curve [(0, 100), (8, 100), (15, 75), (25, 45), (35, 15), (50, 0)]"

definition scoreWindWalking :: "number \<Rightarrow> real option" where
  "scoreWindWalking = curve [(0, 100), (6, 100), (12, 75), (20, 45), (30, 15), (45, 0)]"

definition scoreTempCycling :: "number \<Rightarrow> real option" where
  "scoreTempCycling = curve [(15, 0), (25, 10), (35, 30), (45, 60), (55, 100), (75, 100), (85, 65), (90, 40), (100, 10), (110, 0)]"

definition scoreWindCycling :: "number \<Rightarrow> real option" where
  "scoreWindCycling = curve [(0, 100), (5, 100), (8, 80), (12, 55), (15, 35), (18, 20), (22, 8), (30, 0)]"

definition scorePrecip :: "number \<Rightarrow> real option" where
  "scorePrecip = curve [(0, 100), (5, 100), (15, 80), (30, 55), (50, 30), (70, 12), (100, 0)]"

definition scorePrecipCycling :: "number \<Rightarrow> real option" where
  "scorePrecipCycling = curve [(0, 100), (5, 100), (20, 70), (40, 35), (60, 15), (80, 5), (100, 0)]"

definition scoreTempStargazing :: "number \<Rightarrow> real option" where
  "scoreTempStargazing = curve [(0, 0), (15, 10), (25, 30), (35, 60), (45, 90), (55, 100), (65, 100), (75, 85), (85, 50), (95, 20), (105, 0)]"

definition scoreWindStargazing :: "number \<Rightarrow> real option" where
  "scoreWindStargazing = curve [(0, 100), (5, 100), (10, 85), (15, 60), (20, 35), (25, 15), (35, 0)]"

definition scoreHumidityStargazing :: "number \<Rightarrow> real option" where
  "scoreHumidityStargazing = curve [(0, 100), (30, 100), (50, 90), (60, 70), (70, 50), (80, 25), (90, 10), (100, 0)]"

definition scoreCloudCover :: "number \<Rightarrow> real option" where
  "scoreCloudCover = curve [(0, 100), (10, 95), (20, 80), (30, 60), (50, 35), (70, 15), (85, 5), (100, 0)]"

definition scoreVisibility :: "number \<Rightarrow> real option" where
  "scoreVisibility = curve [(1000, 0), (5000, 30), (10000, 60), (20000, 85), (40000, 100), (100000, 100)]"

definition scoreTempDogWalking :: "number \<Rightarrow> real option" where
  "scoreTempDogWalking = curve [(10, 5), (20, 20), (30, 45), (40, 70), (50, 100), (65, 100), (75, 70), (82, 40), (90, 10), (100, 0)]"

definition scoreUVDogWalking :: "number \<Rightarrow> real option" where
  "scoreUVDogWalking = curve [(0, 100), (2, 100), (4, 75), (6, 40), (8, 10), (10, 0)]"

definition scorePavement :: "number \<Rightarrow> real option" where
  "scorePavement = curve [(30, 60), (40, 80), (50, 100), (77, 100), (100, 65), (115, 35), (125, 10), (135, 0)]"

definition estimatePavementTemp :: "number \<Rightarrow> number \<Rightarrow> number option \<Rightarrow> number" where
  "estimatePavementTemp airTempF uvIndex cloudCover =
     (let maxBoost = Num 50;
          boost = num_mul (num_mul (num_div uvIndex (Num 11))
                    (num_sub (Num 1) (num_div (case cloudCover of Some c \<Rightarrow> c | None \<Rightarrow> Num 50) (Num 100))))
                    maxBoost
      in num_add airTempF boost)"

section \<open>scoring.ts: weather codes and weights\<close>

definition WEATHER_CODE_SCORES :: "(real \<times> real) list" where
  "WEATHER_CODE_SCORES =
     [(0, 100), (1, 95), (2, 90), (3, 75), (45, 55), (48, 50), (51, 35), (53, 25), (55, 15), (56, 2), (57, 0),
      (61, 15), (63, 8), (65, 2), (66, 0), (67, 0), (71, 15), (73, 5), (75, 2), (77, 8),
      (80, 15), (81, 8), (82, 2), (85, 8), (86, 2), (95, 5), (96, 0), (99, 0)]"

definition WEATHER_CODE_SCORES_CYCLING :: "(real \<times> real) list" where
  "WEATHER_CODE_SCORES_CYCLING =
     [(0, 100), (1, 95), (2, 90), (3, 75), (45, 15), (48, 10), (51, 35), (53, 25), (55, 15), (56, 2), (57, 0),
      (61, 15), (63, 8), (65, 3), (66, 0), (67, 0), (71, 20), (73, 8), (75, 0), (77, 10),
      (80, 15), (81, 8), (82, 3), (85, 10), (86, 2), (95, 3), (96, 0), (99, 0)]"

definition WEATHER_CODE_SCORES_STARGAZING :: "(real \<times> real) list" where
  "WEATHER_CODE_SCORES_STARGAZING =
     [(0, 100), (1, 90), (2, 60), (3, 20), (45, 5), (48, 5),
      (51, 5), (53, 2), (55, 0), (56, 0), (57, 0),
      (61, 2), (63, 0), (65, 0), (66, 0), (67, 0),
      (71, 5), (73, 2), (75, 0), (77, 2),
      (80, 5), (81, 2), (82, 0), (85, 2), (86, 0),
      (95, 0), (96, 0), (99, 0)]"

definition WEATHER_CODE_SCORES_DOG_WALKING :: "(real \<times> real) list" where
  "WEATHER_CODE_SCORES_DOG_WALKING =
     [(0, 100), (1, 95), (2, 90), (3, 75), (45, 55), (48, 50),
      (51, 35), (53, 25), (55, 15), (56, 0), (57, 0),
      (61, 15), (63, 8), (65, 2), (66, 0), (67, 0),
      (71, 5), (73, 0), (75, 0), (77, 2),
      (80, 15), (81, 8), (82, 2), (85, 2), (86, 0),
      (95, 5), (96, 0), (99, 0)]"

text \<open>\<open>TABLE[c] ?? 50\<close>: a code that is not a key of the table (\<open>NaN\<close> is none) scores 50.\<close>

definition code_score :: "(real \<times> real) list \<Rightarrow> number \<Rightarrow> real" where
  "code_score table c =
     (case c of
        NaN \<Rightarrow> 50
      | Num k \<Rightarrow> (case map_of table k of Some s \<Rightarrow> s | None \<Rightarrow> 50))"

definition scoreWeatherCode :: "number \<Rightarrow> real" where
  "scoreWeatherCode = code_score WEATHER_CODE_SCORES"

definition scoreWeatherCodeCycling :: "number \<Rightarrow> real" where
  "scoreWeatherCodeCycling = code_score WEATHER_CODE_SCORES_CYCLING"

definition scoreWeatherCodeStargazing :: "number \<Rightarrow> real" where
  "scoreWeatherCodeStargazing = code_score WEATHER_CODE_SCORES_STARGAZING"

definition scoreWeatherCodeDogWalking :: "number \<Rightarrow> real" where
  "scoreWeatherCodeDogWalking = code_score WEATHER_CODE_SCORES_DOG_WALKING"

definition WEIGHTS :: "(string \<times> real) list" where
  "WEIGHTS =
     [(''temperature'', 0.25), (''feels_like'', 0.20), (''humidity'', 0.15),
      (''uv_index'', 0.10), (''wind_speed'', 0.10),
      (''precipitation_probability'', 0.10), (''weather_code'', 0.10)]"

definition WEIGHTS_DOG_WALKING :: "(string \<times> real) list" where
  "WEIGHTS_DOG_WALKING =
     [(''temperature'', 0.15), (''feels_like'', 0.10), (''pavement_temperature'', 0.20),
      (''humidity'', 0.10), (''uv_index'', 0.15), (''wind_speed'', 0.05),
      (''precipitation_probability'', 0.10), (''weather_code'', 0.15)]"

definition WEIGHTS_STARGAZING :: "(string \<times> real) list" where
  "WEIGHTS_STARGAZING =
     [(''cloud_cover'', 0.35), (''weather_code'', 0.15), (''temperature'', 0.15),
      (''wind_speed'', 0.10), (''humidity'', 0.10),
      (''precipitation_probability'', 0.10), (''visibility'', 0.05)]"


section \<open>scoring.ts: computeScore\<close>

text \<open>
  \<open>sub[k]\<close> and \<open>WEIGHTS[k]\<close>, for a key \<open>k\<close> of the record: the loop of \<open>computeScore\<close>
  reads no other key (lemma \<open>sub_scores_ok\<close> below).
\<close>

definition record_get :: "(string \<times> real) list \<Rightarrow> string \<Rightarrow> real" where
  "record_get r k = the (map_of r k)"

text \<open>
  The three branches of \<open>computeScore\<close> differ in the record \<open>sub\<close> they build and in
  the weight table they loop over; the rest of each branch is the same text.
\<close>

definition sub_scores :: "HourlyData \<Rightarrow> Mode \<Rightarrow> (string \<times> real) list option" where
  "sub_scores h mode =
     (if mode = Stargazing then do {
        s_cloud \<leftarrow> scoreCloudCover (case cloud_cover h of Some c \<Rightarrow> c | None \<Rightarrow> Num 50);
        s_code \<leftarrow> Some (scoreWeatherCodeStargazing (weather_code h));
        s_temp \<leftarrow> scoreTempStargazing (temperature h);
        s_wind \<leftarrow> scoreWindStargazing (wind_speed h);
        s_hum \<leftarrow> scoreHumidityStargazing (humidity h);
        s_precip \<leftarrow> scorePrecip (precipitation_probability h);
        s_vis \<leftarrow> scoreVisibility (case visibility h of Some v \<Rightarrow> v | None \<Rightarrow> Num 20000);
        Some [(''cloud_cover'', s_cloud), (''weather_code'', s_code), (''temperature'', s_temp),
              (''wind_speed'', s_wind), (''humidity'', s_hum),
              (''precipitation_probability'', s_precip), (''visibility'', s_vis)]
      }
      else if mode = Dog_walking then do {
        let pavementTemp = estimatePavementTemp (temperature h) (uv_index h) (cloud_cover h);
        s_temp \<leftarrow> scoreTempDogWalking (temperature h);
        s_feels \<leftarrow> scoreTempDogWalking (feels_like h);
        s_pave \<leftarrow> scorePavement pavementTemp;
        s_hum \<leftarrow> scoreHumidity (humidity h);
        s_uv \<leftarrow> scoreUVDogWalking (uv_index h);
        s_wind \<leftarrow> scoreWindWalking (wind_speed h);
        s_precip \<leftarrow> scorePrecip (precipitation_probability h);
        s_code \<leftarrow> Some (scoreWeatherCodeDogWalking (weather_code h));
        Some [(''temperature'', s_temp), (''feels_like'', s_feels), (''pavement_temperature'', s_pave),
              (''humidity'', s_hum), (''uv_index'', s_uv), (''wind_speed'', s_wind),
              (''precipitation_probability'', s_precip), (''weather_code'', s_code)]
      }
      else do {
        let scoreTemp = (if mode = Cycling then scoreTempCycling
                         else if mode = Running then scoreTempRunning else scoreTempWalking);
        let scoreWind = (if mode = Cycling then scoreWindCycling
                         else if mode = Running then scoreWindRunning else scoreWindWalking);
        let precipFn = (if mode = Cycling then scorePrecipCycling else scorePrecip);
        let weatherCodeFn = (if mode = Cycling then scoreWeatherCodeCycling else scoreWeatherCode);
        s_temp \<leftarrow> scoreTemp (temperature h);
        s_feels \<leftarrow> scoreTemp (feels_like h);
        s_hum \<leftarrow> scoreHumidity (humidity h);
        s_uv \<leftarrow> scoreUV (uv_index h);
        s_wind \<leftarrow> scoreWind (wind_speed h);
        s_precip \<leftarrow> precipFn (precipitation_probability h);
        s_code \<leftarrow> Some (weatherCodeFn (weather_code h));
        Some [(''temperature'', s_temp), (''feels_like'', s_feels), (''humidity'', s_hum),
              (''uv_index'', s_uv), (''wind_speed'', s_wind),
              (''precipitation_probability'', s_precip), (''weather_code'', s_code)]
      })"

definition weights_for :: "Mode \<Rightarrow> (string \<times> real) list" where
  "weights_for mode =
     (if mode = Stargazing then WEIGHTS_STARGAZING
      else if mode = Dog_walking then WEIGHTS_DOG_WALKING
      else WEIGHTS)"

text \<open>\<open>for (const k of Object.keys(W)) composite += sub[k] * W[k]\<close>, from \<open>composite = 0\<close>.\<close>

definition weighted_sum :: "(string \<times> real) list \<Rightarrow> (string \<times> real) list \<Rightarrow> real" where
  "weighted_sum W sub =
     fold (\<lambda>k composite. composite + record_get sub k * record_get W k) (map fst W) 0"

definition rating_of :: "real \<Rightarrow> Rating" where
  "rating_of composite =
     (if composite \<ge> 80 then Excellent else if composite \<ge> 65 then Good
      else if composite \<ge> 45 then Fair else Poor)"

definition computeScore :: "HourlyData \<Rightarrow> Mode \<Rightarrow> ScoredHour option" where
  "computeScore h mode = do {
     sub \<leftarrow> sub_scores h mode;
     let composite = weighted_sum (weights_for mode) sub;
     let composite = composite * daylight_factor h;
     let composite = real_of_int (Math_round (composite * 10)) / 10;
     let rating = rating_of composite;
     Some (HourlyData.extend h (ScoredHour.fields composite rating))
   }"

section \<open>scoring.ts: daylight and darkness\<close>

text \<open>
  \<open>Date\<close> belongs to the JavaScript runtime, not to this program, so it is a parameter:
  \<open>getTime D s\<close> is \<open>new Date(s).getTime()\<close> in milliseconds (\<open>NaN\<close> for a string that is
  no date) and \<open>toISOString D ms\<close> is the UTC text of the instant \<open>ms\<close>. \<open>Date.now()\<close> is
  passed as an argument \<open>now\<close>. Strings are compared and sliced as ASCII text.
\<close>

record DateApi =
  getTime :: "string \<Rightarrow> number"
  toISOString :: "real \<Rightarrow> string"

text \<open>\<open>new Date(x).getTime()\<close> where \<open>x\<close> may be \<open>undefined\<close>.\<close>

definition date_ms :: "DateApi \<Rightarrow> string option \<Rightarrow> number" where
  "date_ms D x = (case x of Some s \<Rightarrow> getTime D s | None \<Rightarrow> NaN)"

record DailyEntry =
  date :: string
  sunrise :: "string option"
  sunset :: "string option"

definition computeDarkness :: "DateApi \<Rightarrow> string \<Rightarrow> DailyEntry list \<Rightarrow> Daylight" where
  "computeDarkness D hourISO dailyList =
     (let dateStr = take 10 hourISO in
      case find (\<lambda>d. date d = dateStr) dailyList of
        None \<Rightarrow> \<lparr>is_daylight = False, daylight_factor = 0.05\<rparr>
      | Some day \<Rightarrow>
          let sr = date_ms D (sunrise day);
              ss = date_ms D (sunset day);
              ht = getTime D hourISO;
              twilight = Num (30 * 60 * 1000)
          in
            if num_gt ht (num_add ss twilight) \<or> num_lt ht (num_sub sr twilight)
            then \<lparr>is_daylight = False, daylight_factor = 1.0\<rparr>
            else if (num_ge ht ss \<and> num_le ht (num_add ss twilight))
                  \<or> (num_ge ht (num_sub sr twilight) \<and> num_le ht sr)
            then \<lparr>is_daylight = False, daylight_factor = 0.3\<rparr>
            else if (num_ge ht sr \<and> num_le ht (num_add sr twilight))
                  \<or> (num_ge ht (num_sub ss twilight) \<and> num_le ht ss)
            then \<lparr>is_daylight = True, daylight_factor = 0.3\<rparr>
            else \<lparr>is_daylight = True, daylight_factor = 0.05\<rparr>)"

definition computeDaylight :: "DateApi \<Rightarrow> string \<Rightarrow> DailyEntry list \<Rightarrow> Daylight" where
  "computeDaylight D hourISO dailyList =
     (let dateStr = take 10 hourISO in
      case find (\<lambda>d. date d = dateStr) dailyList of
        None \<Rightarrow> \<lparr>is_daylight = True, daylight_factor = 1.0\<rparr>
      | Some day \<Rightarrow>
          let sr = date_ms D (sunrise day);
              ss = date_ms D (sunset day);
              ht = getTime D hourISO;
              twilight = Num (30 * 60 * 1000)
          in
            if num_ge ht sr \<and> num_le ht ss
            then (if num_lt (num_sub ht sr) twilight \<or> num_lt (num_sub ss ht) twilight
                  then \<lparr>is_daylight = True, daylight_factor = 0.6\<rparr>
                  else \<lparr>is_daylight = True, daylight_factor = 1.0\<rparr>)
            else if num_lt ht sr \<and> num_le (num_sub sr ht) twilight
            then \<lparr>is_daylight = False, daylight_factor = 0.6\<rparr>
            else if num_gt ht ss \<and> num_le (num_sub ht ss) twilight
            then \<lparr>is_daylight = False, daylight_factor = 0.6\<rparr>
            else \<lparr>is_daylight = False, daylight_factor = 0.3\<rparr>)"

section \<open>scoring.ts: forecast lookup\<close>

text \<open>The response of the forecast provider, parsed from JSON: arrays of numbers and strings.\<close>

record Hourly =
  time :: "string list"
  temperature_2m :: "real list"
  relative_humidity_2m :: "real list"
  apparent_temperature :: "real list"
  weather_code :: "real list"
  wind_speed_10m :: "real list"
  uv_index :: "real list"
  precipitation_probability :: "real list"
  cloud_cover :: "real list"
  visibility :: "real list"

record Daily =
  time :: "string list"
  sunrise :: "string list"
  sunset :: "string list"

record OpenMeteoForecast =
  hourly :: Hourly
  daily :: Daily

text \<open>\<open>forecast.daily.time.map((d, i) => ({date: d, sunrise: ...[i], sunset: ...[i]}))\<close>\<close>

definition daily_list :: "OpenMeteoForecast \<Rightarrow> DailyEntry list" where
  "daily_list forecast =
     map (\<lambda>i. \<lparr>DailyEntry.date = Daily.time (daily forecast) ! i,
               DailyEntry.sunrise = at_index (Daily.sunrise (daily forecast)) i,
               DailyEntry.sunset = at_index (Daily.sunset (daily forecast)) i\<rparr>)
         [0..<length (Daily.time (daily forecast))]"

text \<open>
  The object literal \<open>hourData\<close> that both \<open>computeScoreForHour\<close> and
  \<open>findBestAlternative\<close> build for the slot \<open>i\<close> with time \<open>t\<close>; the last fields are
  \<open>h.cloud_cover?.[i] ?? 50\<close> and \<open>h.visibility?.[i] ?? 20000\<close>.
\<close>

definition hour_data :: "Hourly \<Rightarrow> nat \<Rightarrow> string \<Rightarrow> Daylight \<Rightarrow> HourlyData" where
  "hour_data h i t dl =
     \<lparr>is_daylight = is_daylight dl,
      daylight_factor = daylight_factor dl,
      HourlyData.time = t,
      HourlyData.temperature = num_at (temperature_2m h) i,
      HourlyData.humidity = num_at (relative_humidity_2m h) i,
      HourlyData.feels_like = num_at (apparent_temperature h) i,
      HourlyData.weather_code = num_at (Hourly.weather_code h) i,
      HourlyData.wind_speed = num_at (wind_speed_10m h) i,
      HourlyData.uv_index = num_at (Hourly.uv_index h) i,
      HourlyData.precipitation_probability = num_at (Hourly.precipitation_probability h) i,
      HourlyData.cloud_cover =
        Some (case at_index (Hourly.cloud_cover h) i of Some c \<Rightarrow> Num c | None \<Rightarrow> Num 50),
      HourlyData.visibility =
        Some (case at_index (Hourly.visibility h) i of Some v \<Rightarrow> Num v | None \<Rightarrow> Num 20000)\<rparr>"

definition classify :: "DateApi \<Rightarrow> Mode \<Rightarrow> string \<Rightarrow> DailyEntry list \<Rightarrow> Daylight" where
  "classify D mode t dailyList =
     (if mode = Stargazing then computeDarkness D t dailyList else computeDaylight D t dailyList)"

text \<open>The first loop of \<open>computeScoreForHour\<close>: the first slot of the target hour, from index \<open>i\<close>.\<close>

fun find_exact :: "string \<Rightarrow> string list \<Rightarrow> nat \<Rightarrow> nat option" where
  "find_exact targetHour [] i = None"
| "find_exact targetHour (t # ts) i =
     (if take 13 t = targetHour then Some i else find_exact targetHour ts (Suc i))"

text \<open>
  The second loop: the state is \<open>(minDiff, idx)\<close>, where \<open>None\<close> is \<open>Infinity\<close> for
  \<open>minDiff\<close> and \<open>-1\<close> for \<open>idx\<close>.
\<close>

fun find_closest :: "DateApi \<Rightarrow> real \<Rightarrow> string list \<Rightarrow> nat \<Rightarrow> real option \<times> nat option
    \<Rightarrow> real option \<times> nat option" where
  "find_closest D target [] i acc = acc"
| "find_closest D target (t # ts) i (minDiff, idx) =
     (case num_abs (num_sub (getTime D t) (Num target)) of
        NaN \<Rightarrow> find_closest D target ts (Suc i) (minDiff, idx)
      | Num diff \<Rightarrow>
          if (case minDiff of None \<Rightarrow> True | Some m \<Rightarrow> diff < m)
          then find_closest D target ts (Suc i) (Some diff, Some i)
          else find_closest D target ts (Suc i) (minDiff, idx))"

text \<open>\<open>targetDate.toISOString()\<close> throws a RangeError when \<open>targetTime\<close> is no date.\<close>

definition computeScoreForHour :: "DateApi \<Rightarrow> OpenMeteoForecast \<Rightarrow> string \<Rightarrow> Mode \<Rightarrow> real option" where
  "computeScoreForHour D forecast targetTime mode =
     (case getTime D targetTime of
        NaN \<Rightarrow> None
      | Num target \<Rightarrow>
          let targetHour = take 13 (toISOString D target);
              dailyList = daily_list forecast;
              times = Hourly.time (hourly forecast);
              idx = (case find_exact targetHour times 0 of
                       Some i \<Rightarrow> Some i
                     | None \<Rightarrow> snd (find_closest D target times 0 (None, None)))
          in case idx of
               None \<Rightarrow> Some 50
             | Some idx \<Rightarrow>
                 let h = hourly forecast;
                     dl = classify D mode (times ! idx) dailyList;
                     hourData = hour_data h idx (times ! idx) dl
                 in map_option score (computeScore hourData mode))"

section \<open>scoring.ts: the best alternative\<close>

record Alternative =
  time :: string
  score :: real

text \<open>
  One iteration of the loop of \<open>findBestAlternative\<close> up to the scoring: \<open>Some None\<close> is
  \<open>continue\<close>, \<open>Some (Some scored)\<close> the scored slot, \<open>None\<close> an exception.
\<close>

definition alternative_slot :: "DateApi \<Rightarrow> real \<Rightarrow> OpenMeteoForecast \<Rightarrow> string \<Rightarrow> Mode \<Rightarrow> nat
    \<Rightarrow> ScoredHour option option" where
  "alternative_slot D now forecast targetTime mode i =
     (let targetDate = getTime D targetTime;
          windowMs = 4 * 60 * 60 * 1000;
          dayStr = take 10 targetTime;
          dailyList = daily_list forecast;
          t = Hourly.time (hourly forecast) ! i
      in if take 10 t \<noteq> dayStr then Some None
         else let tMs = getTime D t in
           if num_le tMs (Num now) then Some None
           else if num_gt (num_abs (num_sub tMs targetDate)) (Num windowMs) then Some None
           else if num_eq tMs targetDate then Some None
           else let h = hourly forecast;
                    dl = classify D mode t dailyList
                in if mode \<noteq> Stargazing \<and> \<not> is_daylight dl then Some None
                   else if mode = Stargazing \<and> is_daylight dl then Some None
                   else map_option Some (computeScore (hour_data h i t dl) mode))"

definition better :: "Alternative option \<Rightarrow> ScoredHour \<Rightarrow> Alternative option" where
  "better best scored =
     (if (case best of None \<Rightarrow> True | Some b \<Rightarrow> ScoredHour.score scored > Alternative.score b)
      then Some \<lparr>Alternative.time = HourlyData.time scored, Alternative.score = ScoredHour.score scored\<rparr>
      else best)"

fun alternative_loop :: "DateApi \<Rightarrow> real \<Rightarrow> OpenMeteoForecast \<Rightarrow> string \<Rightarrow> Mode \<Rightarrow> nat list
    \<Rightarrow> Alternative option \<Rightarrow> Alternative option option" where
  "alternative_loop D now forecast targetTime mode [] best = Some best"
| "alternative_loop D now forecast targetTime mode (i # rest) best =
     (case alternative_slot D now forecast targetTime mode i of
        None \<Rightarrow> None
      | Some None \<Rightarrow> alternative_loop D now forecast targetTime mode rest best
      | Some (Some scored) \<Rightarrow>
          alternative_loop D now forecast targetTime mode rest (better best scored))"

definition findBestAlternative :: "DateApi \<Rightarrow> real \<Rightarrow> OpenMeteoForecast \<Rightarrow> string \<Rightarrow> Mode
    \<Rightarrow> Alternative option option" where
  "findBestAlternative D now forecast targetTime mode =
     alternative_loop D now forecast targetTime mode
       [0..<length (Hourly.time (hourly forecast))] None"

section \<open>Slots and their scores\<close>

text \<open>
  The composite score of an hour: the score of the record that \<open>computeScore\<close> returns
  (it always returns one, see \<open>computeScore_Some\<close> below).
\<close>

definition score_of :: "HourlyData \<Rightarrow> Mode \<Rightarrow> real" where
  "score_of h mode = (case computeScore h mode of Some r \<Rightarrow> ScoredHour.score r | None \<Rightarrow> 0)"

text \<open>The slot \<open>i\<close> of a forecast as the hour that is scored, and its score.\<close>

definition slot_data :: "DateApi \<Rightarrow> OpenMeteoForecast \<Rightarrow> Mode \<Rightarrow> nat \<Rightarrow> HourlyData" where
  "slot_data D forecast mode i =
     (let t = Hourly.time (hourly forecast) ! i
      in hour_data (hourly forecast) i t (classify D mode t (daily_list forecast)))"

definition slot_score :: "DateApi \<Rightarrow> OpenMeteoForecast \<Rightarrow> Mode \<Rightarrow> nat \<Rightarrow> real" where
  "slot_score D forecast mode i = score_of (slot_data D forecast mode i) mode"

text \<open>
  The slot that \<open>computeScoreForHour\<close> scores for a target, the originally scheduled
  hour: the index \<open>idx\<close> that its two loops settle on (\<open>None\<close> when the target is no
  date or no slot is found).
\<close>

definition scheduled_slot :: "DateApi \<Rightarrow> OpenMeteoForecast \<Rightarrow> string \<Rightarrow> nat option" where
  "scheduled_slot D forecast targetTime =
     (case getTime D targetTime of
        NaN \<Rightarrow> None
      | Num target \<Rightarrow>
          (case find_exact (take 13 (toISOString D target)) (Hourly.time (hourly forecast)) 0 of
             Some i \<Rightarrow> Some i
           | None \<Rightarrow> snd (find_closest D target (Hourly.time (hourly forecast)) 0 (None, None))))"

section \<open>scheduled-run.ts: the durable object\<close>

text \<open>A row of the table \<open>event\<close>; the column \<open>id\<close> is named \<open>row_id\<close> here.\<close>

record EventRow =
  row_id :: string
  email :: string
  mode :: Mode
  scheduled_time :: string
  duration_minutes :: int
  lat :: real
  lon :: real
  tz :: string
  location_name :: string
  initial_score :: real
  alert_sent :: int
  resend_api_key :: string

text \<open>The JSON body of \<open>POST /initialize\<close>; its field \<open>id\<close> is named \<open>body_id\<close> here.\<close>

record InitBody =
  body_id :: string
  email :: string
  mode :: Mode
  scheduledTime :: string
  durationMinutes :: int
  lat :: real
  lon :: real
  tz :: string
  locationName :: string
  initialScore :: real
  resendApiKey :: string

text \<open>The argument of \<open>sendDeteriorationEmail\<close>.\<close>

record DeteriorationData =
  email :: string
  mode :: Mode
  scheduledTime :: string
  durationMinutes :: int
  locationName :: string
  initialScore :: real
  currentScore :: real
  alternative :: "Alternative option"

text \<open>
  The state of one durable object: the rows of its table \<open>event\<close> in rowid order, the
  alarm armed in its storage, and a log of every call of \<open>sendDeteriorationEmail\<close> with
  its argument, the API key, and whether the call resolved (\<open>True\<close>) or threw.
\<close>

record ScheduledRun =
  event :: "EventRow list"
  armed :: "number option"
  sent_log :: "(DeteriorationData \<times> string \<times> bool) list"

text \<open>\<open>SELECT * FROM event LIMIT 1\<close>\<close>

definition getEvent :: "ScheduledRun \<Rightarrow> EventRow option" where
  "getEvent s = (case event s of [] \<Rightarrow> None | r # _ \<Rightarrow> Some r)"

definition new_row :: "InitBody \<Rightarrow> EventRow" where
  "new_row body =
     \<lparr>row_id = body_id body,
      EventRow.email = InitBody.email body,
      EventRow.mode = InitBody.mode body,
      scheduled_time = InitBody.scheduledTime body,
      duration_minutes = InitBody.durationMinutes body,
      EventRow.lat = InitBody.lat body,
      EventRow.lon = InitBody.lon body,
      EventRow.tz = InitBody.tz body,
      location_name = InitBody.locationName body,
      initial_score = InitBody.initialScore body,
      alert_sent = 0,
      resend_api_key = resendApiKey body\<rparr>"

text \<open>
  \<open>INSERT OR REPLACE\<close> on the primary key \<open>id\<close>: a row with the same id is deleted, the
  new row is appended.
\<close>

definition insert_or_replace :: "EventRow \<Rightarrow> EventRow list \<Rightarrow> EventRow list" where
  "insert_or_replace r table = filter (\<lambda>x. row_id x \<noteq> row_id r) table @ [r]"

text \<open>\<open>Math.min\<close> and \<open>Math.max\<close> return \<open>NaN\<close> when an argument is \<open>NaN\<close>.\<close>

fun Math_min :: "number \<Rightarrow> number \<Rightarrow> number" where
  "Math_min (Num a) (Num b) = Num (min a b)"
| "Math_min _ _ = NaN"

fun Math_max :: "number \<Rightarrow> number \<Rightarrow> number" where
  "Math_max (Num a) (Num b) = Num (max a b)"
| "Math_max _ _ = NaN"

text \<open>\<open>handleInitialize\<close>; \<open>now1\<close> and \<open>now2\<close> are its two readings of \<open>Date.now()\<close>.\<close>

definition handleInitialize :: "DateApi \<Rightarrow> real \<Rightarrow> real \<Rightarrow> InitBody \<Rightarrow> ScheduledRun \<Rightarrow> ScheduledRun" where
  "handleInitialize D now1 now2 body s =
     (let table = insert_or_replace (new_row body) (event s);
          eventTime = getTime D (InitBody.scheduledTime body);
          oneHourFromNow = Num (now1 + 60 * 60 * 1000);
          twoHoursBefore = num_sub eventTime (Num (2 * 60 * 60 * 1000));
          firstAlarm = Math_min oneHourFromNow (Math_max twoHoursBefore (Num (now2 + 60 * 1000)))
      in s\<lparr>event := table, armed := Some firstAlarm\<rparr>)"

text \<open>
  What one run of \<open>alarm\<close> meets outside the object: the reading of \<open>Date.now()\<close> in
  \<open>alarm\<close>, the result of \<open>fetchForecast\<close> (\<open>None\<close>: it threw), the later reading of
  \<open>Date.now()\<close> in \<open>findBestAlternative\<close>, and whether \<open>sendDeteriorationEmail\<close> resolved.
\<close>

record Wake =
  now :: real
  fetched :: "OpenMeteoForecast option"
  now_search :: real
  send_ok :: bool

text \<open>The \<open>try\<close> block of \<open>alarm\<close>; an exception leaves the block with the state reached.\<close>

definition alarm_try :: "DateApi \<Rightarrow> Wake \<Rightarrow> EventRow \<Rightarrow> ScheduledRun \<Rightarrow> ScheduledRun" where
  "alarm_try D w ev s =
     (case fetched w of
        None \<Rightarrow> s
      | Some forecast \<Rightarrow>
          (case computeScoreForHour D forecast (scheduled_time ev) (EventRow.mode ev) of
             None \<Rightarrow> s
           | Some current \<Rightarrow>
               let scoreDrop = initial_score ev - current in
               if scoreDrop \<ge> 15 \<and> alert_sent ev = 0 \<and> resend_api_key ev \<noteq> []
               then (case findBestAlternative D (now_search w) forecast (scheduled_time ev) (EventRow.mode ev) of
                       None \<Rightarrow> s
                     | Some alt \<Rightarrow>
                         let mail = \<lparr>DeteriorationData.email = EventRow.email ev,
                                     DeteriorationData.mode = EventRow.mode ev,
                                     DeteriorationData.scheduledTime = scheduled_time ev,
                                     DeteriorationData.durationMinutes = duration_minutes ev,
                                     DeteriorationData.locationName = location_name ev,
                                     DeteriorationData.initialScore = initial_score ev,
                                     currentScore = current,
                                     alternative = alt\<rparr>;
                             s1 = s\<lparr>sent_log := sent_log s @ [(mail, resend_api_key ev, send_ok w)]\<rparr>
                         in if send_ok w
                            then s1\<lparr>event := map (\<lambda>r. r\<lparr>alert_sent := 1\<rparr>) (event s1)\<rparr>
                            else s1)
               else s))"

text \<open>
  \<open>alarm\<close>: the alarm that fired is no longer armed while the handler runs, so the
  object is armed afterwards only if the handler called \<open>setAlarm\<close>.
\<close>

definition alarm :: "DateApi \<Rightarrow> Wake \<Rightarrow> ScheduledRun \<Rightarrow> ScheduledRun" where
  "alarm D w s0 =
     (let s = s0\<lparr>armed := None\<rparr> in
      case getEvent s of
        None \<Rightarrow> s
      | Some ev \<Rightarrow>
          let eventTime = getTime D (scheduled_time ev) in
          if num_gt (Num (now w)) eventTime
          then s\<lparr>event := [], armed := None\<rparr>
          else let s1 = alarm_try D w ev s;
                   nextAlarm = now w + 30 * 60 * 1000
               in if num_lt (Num nextAlarm) eventTime
                  then s1\<lparr>armed := Some (Num nextAlarm)\<rparr>
                  else s1)"

text \<open>A sequence of timer wakes, oldest first.\<close>

fun alarms :: "DateApi \<Rightarrow> Wake list \<Rightarrow> ScheduledRun \<Rightarrow> ScheduledRun" where
  "alarms D [] s = s"
| "alarms D (w # ws) s = alarms D ws (alarm D w s)"

section \<open>Auxiliary notions of the proofs\<close>

text \<open>
  What the proofs establish of the record \<open>sub\<close> of a mode: its entries lie in
  \<open>[0, 100]\<close>, its keys are the keys of the weight table, and the loop over the weights
  computes the weighted sum, which lies in \<open>[0, 100]\<close> as well.
\<close>

definition sub_ok :: "Mode \<Rightarrow> (string \<times> real) list \<Rightarrow> bool" where
  "sub_ok m sub \<longleftrightarrow>
     (\<forall>p \<in> set sub. 0 \<le> snd p \<and> snd p \<le> 100)
     \<and> map fst sub = map fst (weights_for m)
     \<and> weighted_sum (weights_for m) sub = (\<Sum>(k, w) \<leftarrow> weights_for m. record_get sub k * w)
     \<and> 0 \<le> weighted_sum (weights_for m) sub \<and> weighted_sum (weights_for m) sub \<le> 100"

text \<open>
  The object is quiet when it holds no event or its event has the alert flag set; the
  delivered notifications of a log are the calls of \<open>sendDeteriorationEmail\<close> that
  resolved.
\<close>

definition quiet :: "ScheduledRun \<Rightarrow> bool" where
  "quiet s = (case getEvent s of None \<Rightarrow> True | Some ev \<Rightarrow> alert_sent ev \<noteq> 0)"

definition delivered :: "(DeteriorationData \<times> string \<times> bool) list
    \<Rightarrow> (DeteriorationData \<times> string \<times> bool) list" where
  "delivered entries = filter (\<lambda>e. snd (snd e)) entries"

section \<open>A runtime for the examples\<close>

text \<open>
  An instance of the parameter \<open>Date\<close>: a runtime in the time zone UTC, reading the
  minute timestamps \<open>YYYY-MM-DDTHH:MM\<close> that the forecast provider sends. The day
  number of a civil date and its inverse follow the usual era arithmetic of the
  proleptic Gregorian calendar (eras of 400 years, years starting in March).
\<close>

definition digit_value :: "char \<Rightarrow> int option" where
  "digit_value c = map_of (zip ''0123456789'' [0, 1, 2, 3, 4, 5, 6, 7, 8, 9]) c"

fun digits_value :: "string \<Rightarrow> int \<Rightarrow> int option" where
  "digits_value [] acc = Some acc"
| "digits_value (c # cs) acc =
     (case digit_value c of None \<Rightarrow> None | Some d \<Rightarrow> digits_value cs (acc * 10 + d))"

definition days_from_civil :: "int \<Rightarrow> int \<Rightarrow> int \<Rightarrow> int" where
  "days_from_civil y m d =
     (let y1 = (if m \<le> 2 then y - 1 else y);
          era = y1 div 400;
          yoe = y1 - era * 400;
          doy = (153 * (if m > 2 then m - 3 else m + 9) + 2) div 5 + d - 1;
          doe = yoe * 365 + yoe div 4 - yoe div 100 + doy
      in era * 146097 + doe - 719468)"

definition civil_from_days :: "int \<Rightarrow> int \<times> int \<times> int" where
  "civil_from_days days =
     (let z = days + 719468;
          era = z div 146097;
          doe = z - era * 146097;
          yoe = (doe - doe div 1460 + doe div 36524 - doe div 146096) div 365;
          doy = doe - (365 * yoe + yoe div 4 - yoe div 100);
          mp = (5 * doy + 2) div 153;
          d = doy - (153 * mp + 2) div 5 + 1;
          m = (if mp < 10 then mp + 3 else mp - 9)
      in (yoe + era * 400 + (if m \<le> 2 then 1 else 0), m, d))"

definition utc_getTime :: "string \<Rightarrow> number" where
  "utc_getTime s =
     (if length s = 16 \<and> s ! 4 = CHR ''-'' \<and> s ! 7 = CHR ''-'' \<and> s ! 10 = CHR ''T'' \<and> s ! 13 = CHR '':''
      then (case (digits_value (take 4 s) 0, digits_value (take 2 (drop 5 s)) 0,
                  digits_value (take 2 (drop 8 s)) 0, digits_value (take 2 (drop 11 s)) 0,
                  digits_value (take 2 (drop 14 s)) 0) of
              (Some y, Some m, Some d, Some hh, Some mm) \<Rightarrow>
                if 1 \<le> m \<and> m \<le> 12 \<and> 1 \<le> d \<and> d \<le> 31 \<and> hh \<le> 23 \<and> mm \<le> 59
                then Num (real_of_int (((days_from_civil y m d * 24 + hh) * 60 + mm) * 60000))
                else NaN
            | _ \<Rightarrow> NaN)
      else NaN)"

definition digit_char :: "int \<Rightarrow> char" where
  "digit_char k = ''0123456789'' ! nat (k mod 10)"

definition pad2 :: "int \<Rightarrow> string" where
  "pad2 k = [digit_char (k div 10), digit_char k]"

definition pad3 :: "int \<Rightarrow> string" where
  "pad3 k = [digit_char (k div 100), digit_char (k div 10), digit_char k]"

definition pad4 :: "int \<Rightarrow> string" where
  "pad4 k = [digit_char (k div 1000), digit_char (k div 100), digit_char (k div 10), digit_char k]"

definition utc_toISOString :: "real \<Rightarrow> string" where
  "utc_toISOString ms =
     (let t = \<lfloor>ms\<rfloor>;
          ymd = civil_from_days (t div 86400000);
          r = t mod 86400000
      in pad4 (fst ymd) @ ''-'' @ pad2 (fst (snd ymd)) @ ''-'' @ pad2 (snd (snd ymd)) @ ''T''
         @ pad2 (r div 3600000) @ '':'' @ pad2 (r mod 3600000 div 60000) @ '':''
         @ pad2 (r mod 60000 div 1000) @ ''.'' @ pad3 (r mod 1000) @ ''Z'')"

definition utc :: DateApi where
  "utc = \<lparr>getTime = utc_getTime, toISOString = utc_toISOString\<rparr>"

text \<open>The day of the repository's tests: sunrise at 06:00, sunset at 20:30.\<close>

definition DAILY :: "DailyEntry list" where
  "DAILY = [\<lparr>DailyEntry.date = ''2025-06-15'',
             DailyEntry.sunrise = Some ''2025-06-15T06:00'',
             DailyEntry.sunset = Some ''2025-06-15T20:30''\<rparr>]"

text \<open>The baseline hour of the repository's tests: mid-day, mild, calm, clear.\<close>

definition makeHour :: HourlyData where
  "makeHour =
     \<lparr>is_daylight = True, daylight_factor = 1.0,
      HourlyData.time = ''2025-06-15T12:00'',
      HourlyData.temperature = Num 55,
      HourlyData.humidity = Num 40,
      HourlyData.feels_like = Num 55,
      HourlyData.weather_code = Num 0,
      HourlyData.wind_speed = Num 5,
      HourlyData.uv_index = Num 3,
      HourlyData.precipitation_probability = Num 0,
      HourlyData.cloud_cover = Some (Num 10),
      HourlyData.visibility = Some (Num 40000)\<rparr>"

text \<open>A forecast without data: every array is empty.\<close>

definition no_data :: OpenMeteoForecast where
  "no_data =
     \<lparr>hourly = \<lparr>Hourly.time = [], temperature_2m = [], relative_humidity_2m = [],
                apparent_temperature = [], Hourly.weather_code = [], wind_speed_10m = [],
                Hourly.uv_index = [], Hourly.precipitation_probability = [],
                Hourly.cloud_cover = [], Hourly.visibility = []\<rparr>,
      daily = \<lparr>Daily.time = [], Daily.sunrise = [], Daily.sunset = []\<rparr>\<rparr>"

text \<open>
  A forecast for that day, built like those of the tests from the baseline hour: the
  hours 11:00 and 12:00, with heavy rain in the second.
\<close>

definition rain_later :: OpenMeteoForecast where
  "rain_later =
     \<lparr>hourly = \<lparr>Hourly.time = [''2025-06-15T11:00'', ''2025-06-15T12:00''],
                temperature_2m = [55, 55], relative_humidity_2m = [40, 40],
                apparent_temperature = [55, 55], Hourly.weather_code = [0, 65],
                wind_speed_10m = [5, 5], Hourly.uv_index = [3, 3],
                Hourly.precipitation_probability = [0, 80],
                Hourly.cloud_cover = [10, 10], Hourly.visibility = [40000, 40000]\<rparr>,
      daily = \<lparr>Daily.time = [''2025-06-15''], Daily.sunrise = [''2025-06-15T06:00''],
               Daily.sunset = [''2025-06-15T20:30'']\<rparr>\<rparr>"

text \<open>
  A run scheduled for 11:00 of that day with the initial score 80, the object that
  monitors it, the same object after its alert has been sent, and wakes at 10:00, 10:30
  and 10:50 at which the provider returns a forecast without data.
\<close>

definition booking :: InitBody where
  "booking =
     \<lparr>body_id = ''7d3c'', InitBody.email = ''runner@example.org'', InitBody.mode = Running,
      InitBody.scheduledTime = ''2025-06-15T11:00'', InitBody.durationMinutes = 45,
      InitBody.lat = 52, InitBody.lon = 13, InitBody.tz = ''UTC'',
      InitBody.locationName = ''Park'', InitBody.initialScore = 80, resendApiKey = ''re_1''\<rparr>"

definition monitored :: ScheduledRun where
  "monitored = \<lparr>event = [new_row booking], armed = None, sent_log = []\<rparr>"

definition alerted :: ScheduledRun where
  "alerted = \<lparr>event = [(new_row booking)\<lparr>alert_sent := 1\<rparr>], armed = None, sent_log = []\<rparr>"

definition wake_1000 :: Wake where
  "wake_1000 = \<lparr>now = 1749981600000, fetched = Some no_data, now_search = 1749981600000,
                send_ok = True\<rparr>"

definition wake_1030 :: Wake where
  "wake_1030 = \<lparr>now = 1749983400000, fetched = Some no_data, now_search = 1749983400000,
                send_ok = True\<rparr>"

definition wake_1050 :: Wake where
  "wake_1050 = \<lparr>now = 1749984600000, fetched = Some no_data, now_search = 1749984600000,
                send_ok = True\<rparr>"

section \<open>The curve interpolator\<close>

lemma interpolate_Cons: "\<exists>y. interpolate v (b # bs) = Some y"
  by (simp add: interpolate_def split: option.split)

lemma curve_Cons: "curve (b # bs) v = Some (clamp (the (interpolate v (b # bs))) 0 100)"
  using interpolate_Cons [of v b bs] by (auto simp: curve_def)

lemma clamp_range: "0 \<le> clamp y 0 100 \<and> clamp y 0 100 \<le> 100"
  by (simp add: clamp_def)

lemma the_curve_range [simp]:
  "0 \<le> the (curve (b # bs) v)" "the (curve (b # bs) v) \<le> 100"
  using clamp_range by (simp_all add: curve_Cons)

text \<open>
  Claim C5: for every breakpoint table whose inputs ascend from a first input to a
  greater last input (as in each of the program's tables), \<open>interpolate\<close> clamps
  outside the table's input domain: at any query value less than or equal to the
  first input it returns the first output, and at any query value greater than or
  equal to the last input it returns the last output.
\<close>

theorem interpolate_clamps:
  assumes "bp \<noteq> []" and "fst (hd bp) < fst (last bp)"
  shows "(num_le v (Num (fst (hd bp))) \<longrightarrow> interpolate v bp = Some (snd (hd bp)))
       \<and> (num_ge v (Num (fst (last bp))) \<longrightarrow> interpolate v bp = Some (snd (last bp)))"
proof (cases bp)
  case Nil
  with assms show ?thesis by simp
next
  case (Cons b0 rest)
  show ?thesis
  proof (cases v)
    case NaN
    then show ?thesis by (simp add: num_ge_def)
  next
    case (Num x)
    with assms Cons show ?thesis by (auto simp: interpolate_def num_ge_def)
  qed
qed

theorem interpolate_clamps_witness:
  "[(0 :: real, 100 :: real), (2, 100), (5, 75), (7, 45), (8, 15), (11, 0)] \<noteq> []
   \<and> fst (hd [(0 :: real, 100 :: real), (2, 100), (5, 75), (7, 45), (8, 15), (11, 0)])
       < fst (last [(0 :: real, 100 :: real), (2, 100), (5, 75), (7, 45), (8, 15), (11, 0)])
   \<and> num_le (Num (- 1)) (Num 0) \<and> num_le (Num 0) (Num 0)
   \<and> num_ge (Num 11) (Num 11) \<and> num_ge (Num 12) (Num 11)
   \<and> interpolate (Num (- 1)) [(0, 100), (2, 100), (5, 75), (7, 45), (8, 15), (11, 0)] = Some 100
   \<and> interpolate (Num 0) [(0, 100), (2, 100), (5, 75), (7, 45), (8, 15), (11, 0)] = Some 100
   \<and> interpolate (Num 11) [(0, 100), (2, 100), (5, 75), (7, 45), (8, 15), (11, 0)] = Some 0
   \<and> interpolate (Num 12) [(0, 100), (2, 100), (5, 75), (7, 45), (8, 15), (11, 0)] = Some 0"
  using interpolate_clamps [of "[(0, 100), (2, 100), (5, 75), (7, 45), (8, 15), (11, 0)]" "Num (- 1)"]
    interpolate_clamps [of "[(0, 100), (2, 100), (5, 75), (7, 45), (8, 15), (11, 0)]" "Num 0"]
    interpolate_clamps [of "[(0, 100), (2, 100), (5, 75), (7, 45), (8, 15), (11, 0)]" "Num 11"]
    interpolate_clamps [of "[(0, 100), (2, 100), (5, 75), (7, 45), (8, 15), (11, 0)]" "Num 12"]
  by (simp add: num_ge_def)

section \<open>Daylight and darkness at the twilight boundaries\<close>


lemma utc_0600: "utc_getTime ''2025-06-15T06:00'' = Num 1749967200000"
  by (simp add: utc_getTime_def digit_value_def days_from_civil_def)



lemma utc_2030: "utc_getTime ''2025-06-15T20:30'' = Num 1750019400000"
  by (simp add: utc_getTime_def digit_value_def days_from_civil_def)


lemma find_DAILY: "find (\<lambda>d. DailyEntry.date d = ''2025-06-15'') DAILY = Some (hd DAILY)"
  by (simp add: DAILY_def)

lemma sunrise_DAILY: "date_ms utc (DailyEntry.sunrise (hd DAILY)) = Num 1749967200000"
  by (simp add: utc_def DAILY_def date_ms_def utc_0600)

lemma sunset_DAILY: "date_ms utc (DailyEntry.sunset (hd DAILY)) = Num 1750019400000"
  by (simp add: utc_def DAILY_def date_ms_def utc_2030)

text \<open>
  Claim C2, as stated, fails for \<open>computeDarkness\<close>: on the day of the tests (sunrise
  06:00, sunset 20:30) the hour 06:00 is the sunrise instant, and \<open>computeDarkness\<close>
  returns \<open>is_daylight = false\<close> with the multiplier 0.3, since its test for the band
  before sunrise, \<open>ht >= sr - twilight && ht <= sr\<close>, comes first and holds at \<open>ht = sr\<close>.
\<close>

theorem computeDarkness_sunrise_counterexample:
  "find (\<lambda>d. DailyEntry.date d = take 10 ''2025-06-15T06:00'') DAILY = Some (hd DAILY)
   \<and> getTime utc ''2025-06-15T06:00'' = date_ms utc (DailyEntry.sunrise (hd DAILY))
   \<and> getTime utc ''2025-06-15T06:00'' \<noteq> NaN
   \<and> computeDarkness utc ''2025-06-15T06:00'' DAILY = \<lparr>is_daylight = False, daylight_factor = 0.3\<rparr>
   \<and> computeDarkness utc ''2025-06-15T06:00'' DAILY \<noteq> \<lparr>is_daylight = True, daylight_factor = 0.3\<rparr>"
  by (simp add: computeDarkness_def DAILY_def utc_def date_ms_def utc_0600 utc_2030 num_gt_def num_ge_def)

text \<open>
  Claim C2, amended: for a timestamp exactly equal to the sunrise instant of its day
  (the day record is found, and its sunrise is not later than its sunset),
  \<open>computeDaylight\<close> returns \<open>is_daylight = true\<close> with multiplier 0.6, and
  \<open>computeDarkness\<close> returns \<open>is_daylight = false\<close> with multiplier 0.3.
\<close>

theorem sunrise_instant:
  assumes "find (\<lambda>d. DailyEntry.date d = take 10 hourISO) dailyList = Some day"
    and "getTime D hourISO = Num t"
    and "date_ms D (DailyEntry.sunrise day) = Num t"
    and "date_ms D (DailyEntry.sunset day) = Num ss"
    and "t \<le> ss"
  shows "computeDaylight D hourISO dailyList = \<lparr>is_daylight = True, daylight_factor = 0.6\<rparr>
       \<and> computeDarkness D hourISO dailyList = \<lparr>is_daylight = False, daylight_factor = 0.3\<rparr>"
  using assms by (simp add: computeDaylight_def computeDarkness_def num_gt_def num_ge_def)

theorem sunrise_instant_witness:
  "find (\<lambda>d. DailyEntry.date d = take 10 ''2025-06-15T06:00'') DAILY = Some (hd DAILY)
   \<and> getTime utc ''2025-06-15T06:00'' = Num 1749967200000
   \<and> date_ms utc (DailyEntry.sunrise (hd DAILY)) = Num 1749967200000
   \<and> date_ms utc (DailyEntry.sunset (hd DAILY)) = Num 1750019400000
   \<and> (1749967200000 :: real) \<le> 1750019400000
   \<and> computeDaylight utc ''2025-06-15T06:00'' DAILY = \<lparr>is_daylight = True, daylight_factor = 0.6\<rparr>
   \<and> computeDarkness utc ''2025-06-15T06:00'' DAILY = \<lparr>is_daylight = False, daylight_factor = 0.3\<rparr>"
proof -
  have a: "find (\<lambda>d. DailyEntry.date d = take 10 ''2025-06-15T06:00'') DAILY = Some (hd DAILY)"
    by (simp add: find_DAILY)
  have b: "getTime utc ''2025-06-15T06:00'' = Num 1749967200000"
    by (simp add: utc_def utc_0600)
  have e: "(1749967200000 :: real) \<le> 1750019400000" by simp
  from sunrise_instant [OF a b sunrise_DAILY sunset_DAILY e] a b sunrise_DAILY sunset_DAILY e
  show ?thesis by simp
qed




section \<open>The empty series\<close>

text \<open>
  Claim C6: for every target timestamp (a string that the runtime reads as a date) and
  every mode, \<open>computeScoreForHour\<close> applied to a forecast whose hourly series is empty
  returns exactly 50 and does not throw.
\<close>

theorem computeScoreForHour_empty:
  assumes "Hourly.time (hourly forecast) = []" and "getTime D targetTime = Num t"
  shows "computeScoreForHour D forecast targetTime m = Some 50"
  using assms by (simp add: computeScoreForHour_def Let_def)

theorem computeScoreForHour_empty_witness:
  "Hourly.time (hourly no_data) = []
   \<and> getTime utc ''2025-06-15T06:00'' = Num 1749967200000
   \<and> computeScoreForHour utc no_data ''2025-06-15T06:00'' Running = Some 50
   \<and> computeScoreForHour utc no_data ''2025-06-15T06:00'' Stargazing = Some 50"
proof -
  have a: "Hourly.time (hourly no_data) = []" by (simp add: no_data_def)
  have b: "getTime utc ''2025-06-15T06:00'' = Num 1749967200000" by (simp add: utc_def utc_0600)
  from computeScoreForHour_empty [OF a b, of Running] computeScoreForHour_empty [OF a b, of Stargazing] a b
  show ?thesis by simp
qed

section \<open>The range of the scores\<close>

lemma code_score_range:
  assumes "\<forall>p \<in> set table. 0 \<le> snd p \<and> snd p \<le> 100"
  shows "0 \<le> code_score table c \<and> code_score table c \<le> 100"
proof (cases c)
  case NaN
  then show ?thesis by (simp add: code_score_def)
next
  case (Num k)
  show ?thesis
  proof (cases "map_of table k")
    case None
    with Num show ?thesis by (simp add: code_score_def)
  next
    case (Some s)
    then have "(k, s) \<in> set table" by (rule map_of_SomeD)
    with assms have "0 \<le> s \<and> s \<le> 100" by fastforce
    with Num Some show ?thesis by (simp add: code_score_def)
  qed
qed

lemma scoreWeatherCode_range: "0 \<le> scoreWeatherCode c \<and> scoreWeatherCode c \<le> 100"
  unfolding scoreWeatherCode_def by (rule code_score_range) (simp add: WEATHER_CODE_SCORES_def)

lemma scoreWeatherCodeCycling_range:
  "0 \<le> scoreWeatherCodeCycling c \<and> scoreWeatherCodeCycling c \<le> 100"
  unfolding scoreWeatherCodeCycling_def
  by (rule code_score_range) (simp add: WEATHER_CODE_SCORES_CYCLING_def)

lemma scoreWeatherCodeStargazing_range:
  "0 \<le> scoreWeatherCodeStargazing c \<and> scoreWeatherCodeStargazing c \<le> 100"
  unfolding scoreWeatherCodeStargazing_def
  by (rule code_score_range) (simp add: WEATHER_CODE_SCORES_STARGAZING_def)

lemma scoreWeatherCodeDogWalking_range:
  "0 \<le> scoreWeatherCodeDogWalking c \<and> scoreWeatherCodeDogWalking c \<le> 100"
  unfolding scoreWeatherCodeDogWalking_def
  by (rule code_score_range) (simp add: WEATHER_CODE_SCORES_DOG_WALKING_def)

lemmas curve_defs =
  scoreTempRunning_def scoreTempWalking_def scoreHumidity_def scoreUV_def scoreWindRunning_def
  scoreWindWalking_def scoreTempCycling_def scoreWindCycling_def scorePrecip_def
  scorePrecipCycling_def scoreTempStargazing_def scoreWindStargazing_def
  scoreHumidityStargazing_def scoreCloudCover_def scoreVisibility_def scoreTempDogWalking_def
  scoreUVDogWalking_def scorePavement_def

lemma Math_round_tenth:
  assumes "0 \<le> x" and "x \<le> 100"
  shows "0 \<le> real_of_int (Math_round (x * 10)) / 10"
    and "real_of_int (Math_round (x * 10)) / 10 \<le> 100"
    and "\<bar>real_of_int (Math_round (x * 10)) / 10 - x\<bar> \<le> 1 / 20"
proof -
  let ?n = "Math_round (x * 10)"
  have lo: "real_of_int ?n \<le> x * 10 + 1 / 2" and hi: "x * 10 + 1 / 2 < real_of_int ?n + 1"
    unfolding Math_round_def by linarith+
  have "0 \<le> ?n" unfolding Math_round_def using assms by simp
  then show "0 \<le> real_of_int ?n / 10" by simp
  have "?n \<le> 1000" unfolding Math_round_def using assms by (simp add: floor_le_iff)
  then have "real_of_int ?n \<le> 1000" by linarith
  then show "real_of_int ?n / 10 \<le> 100" by simp
  show "\<bar>real_of_int ?n / 10 - x\<bar> \<le> 1 / 20" using lo hi by linarith
qed

lemma sub_scores_Stargazing:
  "sub_scores h Stargazing = Some
     [(''cloud_cover'',
         the (scoreCloudCover (case HourlyData.cloud_cover h of Some c \<Rightarrow> c | None \<Rightarrow> Num 50))),
      (''weather_code'', scoreWeatherCodeStargazing (HourlyData.weather_code h)),
      (''temperature'', the (scoreTempStargazing (HourlyData.temperature h))),
      (''wind_speed'', the (scoreWindStargazing (HourlyData.wind_speed h))),
      (''humidity'', the (scoreHumidityStargazing (HourlyData.humidity h))),
      (''precipitation_probability'', the (scorePrecip (HourlyData.precipitation_probability h))),
      (''visibility'',
         the (scoreVisibility (case HourlyData.visibility h of Some v \<Rightarrow> v | None \<Rightarrow> Num 20000)))]"
  by (simp add: sub_scores_def curve_defs curve_Cons)

lemma sub_scores_Dog_walking:
  "sub_scores h Dog_walking = Some
     [(''temperature'', the (scoreTempDogWalking (HourlyData.temperature h))),
      (''feels_like'', the (scoreTempDogWalking (HourlyData.feels_like h))),
      (''pavement_temperature'',
         the (scorePavement (estimatePavementTemp (HourlyData.temperature h) (HourlyData.uv_index h)
                (HourlyData.cloud_cover h)))),
      (''humidity'', the (scoreHumidity (HourlyData.humidity h))),
      (''uv_index'', the (scoreUVDogWalking (HourlyData.uv_index h))),
      (''wind_speed'', the (scoreWindWalking (HourlyData.wind_speed h))),
      (''precipitation_probability'', the (scorePrecip (HourlyData.precipitation_probability h))),
      (''weather_code'', scoreWeatherCodeDogWalking (HourlyData.weather_code h))]"
  by (simp add: sub_scores_def curve_defs curve_Cons Let_def)

lemma sub_scores_other:
  assumes "m \<noteq> Stargazing" and "m \<noteq> Dog_walking"
  shows "sub_scores h m = Some
     [(''temperature'',
         the ((if m = Cycling then scoreTempCycling
               else if m = Running then scoreTempRunning else scoreTempWalking)
              (HourlyData.temperature h))),
      (''feels_like'',
         the ((if m = Cycling then scoreTempCycling
               else if m = Running then scoreTempRunning else scoreTempWalking)
              (HourlyData.feels_like h))),
      (''humidity'', the (scoreHumidity (HourlyData.humidity h))),
      (''uv_index'', the (scoreUV (HourlyData.uv_index h))),
      (''wind_speed'',
         the ((if m = Cycling then scoreWindCycling
               else if m = Running then scoreWindRunning else scoreWindWalking)
              (HourlyData.wind_speed h))),
      (''precipitation_probability'',
         the ((if m = Cycling then scorePrecipCycling else scorePrecip)
              (HourlyData.precipitation_probability h))),
      (''weather_code'',
         (if m = Cycling then scoreWeatherCodeCycling else scoreWeatherCode)
           (HourlyData.weather_code h))]"
  using assms by (simp add: sub_scores_def curve_defs curve_Cons Let_def)

lemma sub_ok_Stargazing:
  assumes "0 \<le> a \<and> a \<le> 100" "0 \<le> b \<and> b \<le> 100" "0 \<le> c \<and> c \<le> 100" "0 \<le> d \<and> d \<le> 100"
    "0 \<le> e \<and> e \<le> 100" "0 \<le> f \<and> f \<le> 100" "0 \<le> g \<and> g \<le> (100::real)"
  shows "sub_ok Stargazing
           [(''cloud_cover'', a), (''weather_code'', b), (''temperature'', c), (''wind_speed'', d),
            (''humidity'', e), (''precipitation_probability'', f), (''visibility'', g)]"
  using assms
  by (simp add: sub_ok_def weights_for_def WEIGHTS_STARGAZING_def weighted_sum_def record_get_def)

lemma sub_ok_Dog_walking:
  assumes "0 \<le> a \<and> a \<le> 100" "0 \<le> b \<and> b \<le> 100" "0 \<le> c \<and> c \<le> 100" "0 \<le> d \<and> d \<le> 100"
    "0 \<le> e \<and> e \<le> 100" "0 \<le> f \<and> f \<le> 100" "0 \<le> g \<and> g \<le> 100" "0 \<le> i \<and> i \<le> (100::real)"
  shows "sub_ok Dog_walking
           [(''temperature'', a), (''feels_like'', b), (''pavement_temperature'', c),
            (''humidity'', d), (''uv_index'', e), (''wind_speed'', f),
            (''precipitation_probability'', g), (''weather_code'', i)]"
  using assms
  by (simp add: sub_ok_def weights_for_def WEIGHTS_DOG_WALKING_def weighted_sum_def record_get_def)

lemma sub_ok_other:
  assumes "m \<noteq> Stargazing" "m \<noteq> Dog_walking"
    "0 \<le> a \<and> a \<le> 100" "0 \<le> b \<and> b \<le> 100" "0 \<le> c \<and> c \<le> 100" "0 \<le> d \<and> d \<le> 100"
    "0 \<le> e \<and> e \<le> 100" "0 \<le> f \<and> f \<le> 100" "0 \<le> g \<and> g \<le> (100::real)"
  shows "sub_ok m
           [(''temperature'', a), (''feels_like'', b), (''humidity'', c), (''uv_index'', d),
            (''wind_speed'', e), (''precipitation_probability'', f), (''weather_code'', g)]"
  using assms
  by (simp add: sub_ok_def weights_for_def WEIGHTS_def weighted_sum_def record_get_def)

lemma sub_scores_ok: "\<exists>sub. sub_scores h m = Some sub \<and> sub_ok m sub"
proof -
  consider "m = Stargazing" | "m = Dog_walking" | "m \<noteq> Stargazing \<and> m \<noteq> Dog_walking" by blast
  then show ?thesis
  proof cases
    case 1
    show ?thesis unfolding 1 sub_scores_Stargazing
      by (rule exI, rule conjI, rule refl, rule sub_ok_Stargazing)
         (simp_all add: curve_defs scoreWeatherCodeStargazing_range)
  next
    case 2
    show ?thesis unfolding 2 sub_scores_Dog_walking
      by (rule exI, rule conjI, rule refl, rule sub_ok_Dog_walking)
         (simp_all add: curve_defs scoreWeatherCodeDogWalking_range)
  next
    case 3
    then have a: "m \<noteq> Stargazing" and b: "m \<noteq> Dog_walking" by simp_all
    show ?thesis unfolding sub_scores_other [OF a b]
      by (rule exI, rule conjI, rule refl, rule sub_ok_other [OF a b])
         (simp_all add: curve_defs scoreWeatherCode_range scoreWeatherCodeCycling_range)
  qed
qed

lemma score_extend [simp]:
  "ScoredHour.score (HourlyData.extend h (ScoredHour.fields c r)) = c"
  "HourlyData.time (HourlyData.extend h (ScoredHour.fields c r)) = HourlyData.time h"
  by (simp_all add: HourlyData.extend_def ScoredHour.fields_def)

text \<open>\<open>computeScore\<close> never throws.\<close>

lemma computeScore_Some:
  "computeScore h m =
     Some (HourlyData.extend h (ScoredHour.fields (score_of h m) (rating_of (score_of h m))))"
proof -
  obtain sub where sub: "sub_scores h m = Some sub" using sub_scores_ok by blast
  then obtain c where c: "computeScore h m = Some (HourlyData.extend h (ScoredHour.fields c (rating_of c)))"
    by (simp add: computeScore_def Let_def)
  then have "score_of h m = c" by (simp add: score_of_def)
  with c show ?thesis by simp
qed

text \<open>
  Claim C4: for every hour whose daylight factor lies in \<open>[0, 1]\<close> and every mode,
  \<open>computeScore\<close> returns a record; every entry of the record \<open>sub\<close> of sub-scores lies
  in \<open>[0, 100]\<close>; the composite score lies in \<open>[0, 100]\<close>; and the composite is a whole
  number of tenths, namely the weighted sum of the sub-scores times the daylight
  factor, times ten, rounded by \<open>Math.round\<close> and divided by ten, which is within 0.05
  of the unrounded product. Numbers are reals here, so the rounding error of
  floating-point arithmetic is outside the statement.
\<close>

theorem computeScore_range:
  assumes "0 \<le> daylight_factor h" and "daylight_factor h \<le> 1"
  shows "\<exists>sub r. sub_scores h m = Some sub \<and> computeScore h m = Some r
          \<and> (\<forall>p \<in> set sub. 0 \<le> snd p \<and> snd p \<le> 100)
          \<and> 0 \<le> ScoredHour.score r \<and> ScoredHour.score r \<le> 100
          \<and> ScoredHour.score r =
              real_of_int (Math_round ((\<Sum>(k, w) \<leftarrow> weights_for m. record_get sub k * w)
                                       * daylight_factor h * 10)) / 10
          \<and> \<bar>ScoredHour.score r
               - (\<Sum>(k, w) \<leftarrow> weights_for m. record_get sub k * w) * daylight_factor h\<bar> \<le> 1 / 20"
proof -
  obtain sub where sub: "sub_scores h m = Some sub" and ok: "sub_ok m sub"
    using sub_scores_ok by blast
  let ?total = "\<Sum>(k, w) \<leftarrow> weights_for m. record_get sub k * w"
  let ?x = "?total * daylight_factor h"
  let ?c = "real_of_int (Math_round (?x * 10)) / 10"
  from ok have ws: "weighted_sum (weights_for m) sub = ?total"
    and lo: "0 \<le> ?total" and hi: "?total \<le> 100"
    and rng: "\<forall>p \<in> set sub. 0 \<le> snd p \<and> snd p \<le> 100"
    by (simp_all add: sub_ok_def)
  have x0: "0 \<le> ?x" using lo assms by simp
  have "?x \<le> 100 * 1" using hi lo assms by (intro mult_mono) simp_all
  then have x1: "?x \<le> 100" by simp
  have r: "computeScore h m = Some (HourlyData.extend h (ScoredHour.fields ?c (rating_of ?c)))"
    using sub ws by (simp add: computeScore_def Let_def mult.assoc)
  have c0: "0 \<le> ?c" and c1: "?c \<le> 100" and c2: "\<bar>?c - ?x\<bar> \<le> 1 / 20"
    using Math_round_tenth [OF x0 x1] by simp_all
  show ?thesis
    apply (rule exI [of _ sub])
    apply (rule exI [of _ "HourlyData.extend h (ScoredHour.fields ?c (rating_of ?c))"])
    using sub r rng c0 c1 c2 by simp
qed

theorem computeScore_range_witness:
  "0 \<le> daylight_factor makeHour \<and> daylight_factor makeHour \<le> 1
   \<and> (\<exists>sub r. sub_scores makeHour Running = Some sub \<and> computeScore makeHour Running = Some r
          \<and> (\<forall>p \<in> set sub. 0 \<le> snd p \<and> snd p \<le> 100)
          \<and> 0 \<le> ScoredHour.score r \<and> ScoredHour.score r \<le> 100
          \<and> ScoredHour.score r =
              real_of_int (Math_round ((\<Sum>(k, w) \<leftarrow> weights_for Running. record_get sub k * w)
                                       * daylight_factor makeHour * 10)) / 10
          \<and> \<bar>ScoredHour.score r
               - (\<Sum>(k, w) \<leftarrow> weights_for Running. record_get sub k * w) * daylight_factor makeHour\<bar>
              \<le> 1 / 20)"
proof -
  have a: "0 \<le> daylight_factor makeHour" and b: "daylight_factor makeHour \<le> 1"
    by (simp_all add: makeHour_def)
  from computeScore_range [OF a b, of Running] a b show ?thesis by blast
qed

section \<open>The best alternative\<close>

lemma slot_data_time [simp]:
  "HourlyData.time (slot_data D f m i) = Hourly.time (hourly f) ! i"
  by (simp add: slot_data_def hour_data_def Let_def)

text \<open>\<open>computeScoreForHour\<close> returns the score of the scheduled slot, or 50 without one.\<close>

lemma computeScoreForHour_slot:
  assumes "getTime D tt = Num t"
  shows "computeScoreForHour D f tt m =
           (case scheduled_slot D f tt of
              None \<Rightarrow> Some 50
            | Some idx \<Rightarrow> Some (slot_score D f m idx))"
  using assms
  by (simp add: computeScoreForHour_def scheduled_slot_def Let_def computeScore_Some
      slot_score_def slot_data_def split: option.split)

lemma utc_1100: "utc_getTime ''2025-06-15T11:00'' = Num 1749985200000"
  by (simp add: utc_getTime_def digit_value_def days_from_civil_def)

lemma rain_later_best:
  "findBestAlternative utc 1749981600000 rain_later ''2025-06-15T11:00'' Running
     = Some (Some \<lparr>Alternative.time = ''2025-06-15T12:00'', Alternative.score = 80.2\<rparr>)"
  by code_simp

lemma rain_later_target:
  "computeScoreForHour utc rain_later ''2025-06-15T11:00'' Running = Some 99.2"
  by code_simp

lemma rain_later_off_grid:
  "scheduled_slot utc rain_later ''2025-06-15T11:30'' = Some 0
   \<and> computeScoreForHour utc rain_later ''2025-06-15T11:30'' Running = Some 99.2
   \<and> findBestAlternative utc 1749981600000 rain_later ''2025-06-15T11:30'' Running
       = Some (Some \<lparr>Alternative.time = ''2025-06-15T11:00'', Alternative.score = 99.2\<rparr>)"
  by code_simp

text \<open>
  Claim C7 keeps the target slot itself out of the slots that may be returned, and
  the loop of \<open>findBestAlternative\<close> means to (\<open>// skip same slot\<close>), but it compares
  instants: \<open>tMs === targetDate.getTime()\<close>. For a scheduled time between two slots no
  slot has the target's instant, so the slot of the scheduled hour is not skipped. In
  the forecast \<open>rain_later\<close> the target 11:30 is scored by \<open>computeScoreForHour\<close> on the
  slot 11:00 (index 0, score 99.2), and at 10:00 \<open>findBestAlternative\<close> returns that
  same slot 11:00 as the alternative.
\<close>

theorem findBestAlternative_returns_scheduled_hour:
  "Hourly.time (hourly rain_later) = [''2025-06-15T11:00'', ''2025-06-15T12:00'']
   \<and> scheduled_slot utc rain_later ''2025-06-15T11:30'' = Some 0
   \<and> computeScoreForHour utc rain_later ''2025-06-15T11:30'' Running = Some 99.2
   \<and> findBestAlternative utc 1749981600000 rain_later ''2025-06-15T11:30'' Running
       = Some (Some \<lparr>Alternative.time = ''2025-06-15T11:00'', Alternative.score = 99.2\<rparr>)"
  using rain_later_off_grid by (simp add: rain_later_def)

text \<open>
  Claim C8, as stated, fails in its second half: \<open>findBestAlternative\<close> never compares
  with the score of the scheduled hour. In the forecast \<open>rain_later\<close> the scheduled hour
  11:00 scores 99.2 and the only other hour, 12:00 with heavy rain, scores 80.2 and is
  returned as the alternative.
\<close>

theorem findBestAlternative_not_higher_counterexample:
  "findBestAlternative utc 1749981600000 rain_later ''2025-06-15T11:00'' Running
     = Some (Some \<lparr>Alternative.time = ''2025-06-15T12:00'', Alternative.score = 80.2\<rparr>)
   \<and> computeScoreForHour utc rain_later ''2025-06-15T11:00'' Running = Some 99.2
   \<and> \<not> (80.2 :: real) > 99.2"
  using rain_later_best rain_later_target by simp

lemma alternative_slot_Some:
  assumes "alternative_slot D nw f tt m i = Some (Some scored)"
  shows "\<not> num_eq (getTime D (Hourly.time (hourly f) ! i)) (getTime D tt)
       \<and> HourlyData.time scored = Hourly.time (hourly f) ! i
       \<and> ScoredHour.score scored = slot_score D f m i"
  using assms
  by (auto simp: alternative_slot_def Let_def computeScore_Some slot_data_def slot_score_def
      hour_data_def split: if_splits)

lemma alternative_loop_slots:
  assumes "alternative_loop D nw f tt m xs best = Some res"
    and "\<forall>a. best = Some a \<longrightarrow> (\<exists>i < n. Alternative.time a = Hourly.time (hourly f) ! i
            \<and> \<not> num_eq (getTime D (Hourly.time (hourly f) ! i)) (getTime D tt)
            \<and> Alternative.score a = slot_score D f m i)"
    and "\<forall>i \<in> set xs. i < n"
  shows "\<forall>a. res = Some a \<longrightarrow> (\<exists>i < n. Alternative.time a = Hourly.time (hourly f) ! i
            \<and> \<not> num_eq (getTime D (Hourly.time (hourly f) ! i)) (getTime D tt)
            \<and> Alternative.score a = slot_score D f m i)"
  using assms
proof (induction xs arbitrary: best)
  case Nil
  then show ?case by simp
next
  case (Cons i xs)
  from Cons.prems(1) obtain c where c: "alternative_slot D nw f tt m i = Some c"
    by (cases "alternative_slot D nw f tt m i") simp_all
  from Cons.prems(3) have i: "i < n" and rest: "\<forall>i \<in> set xs. i < n" by simp_all
  show ?case
  proof (cases c)
    case None
    with c Cons.prems(1) have "alternative_loop D nw f tt m xs best = Some res" by simp
    from Cons.IH [OF this Cons.prems(2) rest] show ?thesis .
  next
    case (Some scored)
    with c Cons.prems(1)
    have run: "alternative_loop D nw f tt m xs (better best scored) = Some res" by simp
    from c Some have "alternative_slot D nw f tt m i = Some (Some scored)" by simp
    from alternative_slot_Some [OF this] i Cons.prems(2)
    have "\<forall>a. better best scored = Some a \<longrightarrow>
            (\<exists>i < n. Alternative.time a = Hourly.time (hourly f) ! i
              \<and> \<not> num_eq (getTime D (Hourly.time (hourly f) ! i)) (getTime D tt)
              \<and> Alternative.score a = slot_score D f m i)"
      by (auto simp: better_def split: if_splits)
    from Cons.IH [OF run this rest] show ?thesis .
  qed
qed

lemma rain_later_slot: "scheduled_slot utc rain_later ''2025-06-15T11:00'' = Some 0"
  by code_simp

text \<open>
  Claim C8, amended: when the scheduled time is exactly the time of the slot that
  \<open>computeScoreForHour\<close> scores as the originally scheduled hour, every alternative
  returned by \<open>findBestAlternative\<close> is a different hour than the scheduled one: another
  slot of the series, with another time. Its score is the score of that slot under
  the same mode, as the score of the scheduled hour is the score of the scheduled
  slot; the first need not be higher than the second. A scheduled time between two
  slots is left out here.
\<close>

theorem findBestAlternative_other_hour:
  assumes "findBestAlternative D nw f tt m = Some (Some a)"
    and "scheduled_slot D f tt = Some idx"
    and "num_eq (getTime D (Hourly.time (hourly f) ! idx)) (getTime D tt)"
  shows "\<exists>i < length (Hourly.time (hourly f)).
           i \<noteq> idx
           \<and> Alternative.time a = Hourly.time (hourly f) ! i
           \<and> Alternative.time a \<noteq> Hourly.time (hourly f) ! idx
           \<and> \<not> num_eq (getTime D (Hourly.time (hourly f) ! i)) (getTime D (Hourly.time (hourly f) ! idx))
           \<and> Alternative.score a = slot_score D f m i
           \<and> computeScoreForHour D f tt m = Some (slot_score D f m idx)"
proof -
  from assms(3) obtain t where t: "getTime D tt = Num t" "getTime D (Hourly.time (hourly f) ! idx) = Num t"
    by (cases "getTime D (Hourly.time (hourly f) ! idx)"; cases "getTime D tt") simp_all
  from alternative_loop_slots [OF assms(1) [unfolded findBestAlternative_def],
      of "length (Hourly.time (hourly f))"]
  obtain i where i: "i < length (Hourly.time (hourly f))"
    "Alternative.time a = Hourly.time (hourly f) ! i"
    "\<not> num_eq (getTime D (Hourly.time (hourly f) ! i)) (getTime D tt)"
    "Alternative.score a = slot_score D f m i"
    by auto
  from i(3) t have other: "\<not> num_eq (getTime D (Hourly.time (hourly f) ! i))
      (getTime D (Hourly.time (hourly f) ! idx))" by simp
  have str: "Hourly.time (hourly f) ! i \<noteq> Hourly.time (hourly f) ! idx"
  proof
    assume "Hourly.time (hourly f) ! i = Hourly.time (hourly f) ! idx"
    with other t(2) show False by simp
  qed
  then have idx: "i \<noteq> idx" by auto
  have "computeScoreForHour D f tt m = Some (slot_score D f m idx)"
    using computeScoreForHour_slot [OF t(1), of f m] assms(2) by simp
  with i idx str other show ?thesis by auto
qed

theorem findBestAlternative_other_hour_witness:
  "findBestAlternative utc 1749981600000 rain_later ''2025-06-15T11:00'' Running
     = Some (Some \<lparr>Alternative.time = ''2025-06-15T12:00'', Alternative.score = 80.2\<rparr>)
   \<and> scheduled_slot utc rain_later ''2025-06-15T11:00'' = Some 0
   \<and> num_eq (getTime utc (Hourly.time (hourly rain_later) ! 0)) (getTime utc ''2025-06-15T11:00'')
   \<and> (\<exists>i < length (Hourly.time (hourly rain_later)).
          i \<noteq> 0
          \<and> ''2025-06-15T12:00'' = Hourly.time (hourly rain_later) ! i
          \<and> ''2025-06-15T12:00'' \<noteq> Hourly.time (hourly rain_later) ! 0
          \<and> 80.2 = slot_score utc rain_later Running i
          \<and> computeScoreForHour utc rain_later ''2025-06-15T11:00'' Running
              = Some (slot_score utc rain_later Running 0))"
proof -
  have c: "num_eq (getTime utc (Hourly.time (hourly rain_later) ! 0)) (getTime utc ''2025-06-15T11:00'')"
    by (simp add: rain_later_def utc_def utc_1100)
  from findBestAlternative_other_hour [OF rain_later_best rain_later_slot c]
    rain_later_best rain_later_slot c
  show ?thesis by auto
qed

section \<open>The monitoring state machine\<close>

lemma getEvent_armed [simp]: "getEvent (s\<lparr>armed := a\<rparr>) = getEvent s"
  by (simp add: getEvent_def)

lemma alarm_try_flagged: "alert_sent ev \<noteq> 0 \<Longrightarrow> alarm_try D w ev s = s"
  by (simp add: alarm_try_def Let_def split: option.splits)

lemma alarm_try_log:
  "(sent_log (alarm_try D w ev s) = sent_log s \<and> event (alarm_try D w ev s) = event s)
   \<or> (\<exists>mail. sent_log (alarm_try D w ev s) = sent_log s @ [(mail, resend_api_key ev, send_ok w)]
         \<and> event (alarm_try D w ev s)
             = (if send_ok w then map (\<lambda>r. r\<lparr>alert_sent := 1\<rparr>) (event s) else event s))"
  by (simp add: alarm_try_def Let_def split: option.splits)

lemma alarm_try_armed [simp]: "armed (alarm_try D w ev s) = armed s"
  by (simp add: alarm_try_def Let_def split: option.splits)

text \<open>A wake of a quiet object sends nothing and leaves the object quiet.\<close>

lemma quiet_alarm:
  assumes "quiet s"
  shows "sent_log (alarm D w s) = sent_log s \<and> quiet (alarm D w s)"
proof (cases "getEvent s")
  case None
  with assms show ?thesis by (simp add: alarm_def quiet_def)
next
  case (Some ev)
  with assms have "alert_sent ev \<noteq> 0" by (simp add: quiet_def)
  then have "alarm_try D w ev (s\<lparr>armed := None\<rparr>) = s\<lparr>armed := None\<rparr>"
    by (rule alarm_try_flagged)
  with Some assms show ?thesis
    by (simp add: alarm_def Let_def quiet_def) (simp add: getEvent_def)
qed

lemma quiet_alarms: "quiet s \<Longrightarrow> sent_log (alarms D ws s) = sent_log s"
  by (induction ws arbitrary: s) (simp_all add: quiet_alarm)

text \<open>
  A wake appends at most one call to the log, and after a call that resolved the
  object is quiet.
\<close>

lemma alarm_log:
  "\<exists>new. sent_log (alarm D w s) = sent_log s @ new
     \<and> (delivered new = [] \<or> (length new = 1 \<and> quiet (alarm D w s)))"
proof (cases "getEvent s")
  case None
  then show ?thesis by (simp add: alarm_def delivered_def)
next
  case (Some ev)
  then have ne: "event s \<noteq> []" by (auto simp: getEvent_def)
  let ?s = "s\<lparr>armed := None\<rparr>"
  show ?thesis
  proof (cases "num_gt (Num (now w)) (getTime D (scheduled_time ev))")
    case True
    with Some show ?thesis by (simp add: alarm_def Let_def delivered_def)
  next
    case False
    from alarm_try_log [of D w ev ?s]
    consider "sent_log (alarm_try D w ev ?s) = sent_log s"
      | mail where "sent_log (alarm_try D w ev ?s) = sent_log s @ [(mail, resend_api_key ev, send_ok w)]"
          "event (alarm_try D w ev ?s)
             = (if send_ok w then map (\<lambda>r. r\<lparr>alert_sent := 1\<rparr>) (event s) else event s)"
      by auto
    then show ?thesis
    proof cases
      case 1
      with Some False show ?thesis by (simp add: alarm_def Let_def delivered_def)
    next
      case 2
      show ?thesis
      proof (cases "send_ok w")
        case no: False
        with 2 Some False show ?thesis by (simp add: alarm_def Let_def delivered_def)
      next
        case yes: True
        with 2 ne have "quiet (alarm_try D w ev ?s)"
          by (cases "event s") (simp_all add: quiet_def getEvent_def)
        with 2 Some False show ?thesis
          by (auto simp: alarm_def Let_def quiet_def)
      qed
    qed
  qed
qed

text \<open>
  Claim C1: over any sequence of timer wakes of one object, once the alert flag of
  its event is set no wake calls \<open>sendDeteriorationEmail\<close> any more, whatever the
  score does; and from any state, at most one of the notifications that the wakes
  dispatch is delivered (a call that threw is tried again at the next wake, and the
  flag is set as soon as one call has resolved).
\<close>

theorem alarm_notifies_once:
  "(\<forall>ev. getEvent s = Some ev \<and> alert_sent ev = 1 \<longrightarrow> sent_log (alarms D ws s) = sent_log s)
   \<and> (\<exists>new. sent_log (alarms D ws s) = sent_log s @ new \<and> length (delivered new) \<le> 1)"
proof
  show "\<forall>ev. getEvent s = Some ev \<and> alert_sent ev = 1 \<longrightarrow> sent_log (alarms D ws s) = sent_log s"
    by (auto intro!: quiet_alarms simp: quiet_def)
next
  show "\<exists>new. sent_log (alarms D ws s) = sent_log s @ new \<and> length (delivered new) \<le> 1"
  proof (induction ws arbitrary: s)
    case Nil
    show ?case by (simp add: delivered_def)
  next
    case (Cons w ws)
    obtain n1 where n1: "sent_log (alarm D w s) = sent_log s @ n1"
      "delivered n1 = [] \<or> (length n1 = 1 \<and> quiet (alarm D w s))"
      using alarm_log by blast
    from n1(2) show ?case
    proof
      assume none: "delivered n1 = []"
      from Cons.IH [of "alarm D w s"] obtain n2
        where n2: "sent_log (alarms D ws (alarm D w s)) = sent_log (alarm D w s) @ n2"
          "length (delivered n2) \<le> 1" by blast
      from n1(1) n2 none show ?thesis
        by (intro exI [of _ "n1 @ n2"]) (simp add: delivered_def)
    next
      assume one: "length n1 = 1 \<and> quiet (alarm D w s)"
      then have "sent_log (alarms D ws (alarm D w s)) = sent_log (alarm D w s)"
        by (simp add: quiet_alarms)
      moreover have "length (delivered n1) \<le> 1"
        using one unfolding delivered_def by (metis length_filter_le)
      ultimately show ?thesis using n1(1) by (intro exI [of _ n1]) simp
    qed
  qed
qed

lemma alerted_event: "getEvent alerted = Some ((new_row booking)\<lparr>alert_sent := 1\<rparr>)"
  by (simp add: alerted_def getEvent_def)

lemma monitored_two_wakes:
  "length (sent_log (alarms utc [wake_1000, wake_1030] monitored)) = 1"
  by code_simp

theorem alarm_notifies_once_witness:
  "getEvent alerted = Some ((new_row booking)\<lparr>alert_sent := 1\<rparr>)
   \<and> alert_sent ((new_row booking)\<lparr>alert_sent := 1\<rparr>) = 1
   \<and> sent_log (alarms utc [wake_1000, wake_1030] alerted) = sent_log alerted
   \<and> length (sent_log (alarms utc [wake_1000, wake_1030] monitored)) = 1
   \<and> (\<exists>new. sent_log (alarms utc [wake_1000, wake_1030] monitored) = sent_log monitored @ new
          \<and> length (delivered new) \<le> 1)"
  using alarm_notifies_once [of alerted utc "[wake_1000, wake_1030]"]
    alarm_notifies_once [of monitored utc "[wake_1000, wake_1030]"]
    alerted_event monitored_two_wakes
  by simp

text \<open>
  What \<open>alarm\<close> arms and keeps: a wake it arms lies 30 minutes after the current time
  and strictly before the scheduled time, and a wake at or before the scheduled time
  leaves the rows in the table. So no wake that \<open>alarm\<close> arms reaches the branch
  \<open>Event has passed - self-clean\<close>.
\<close>

lemma alarm_armed_before_event:
  assumes "armed (alarm D w s) = Some t"
  shows "\<exists>ev E. getEvent s = Some ev \<and> getTime D (scheduled_time ev) = Num E
           \<and> t = Num (now w + 30 * 60 * 1000) \<and> now w + 30 * 60 * 1000 < E"
proof (cases "getEvent s")
  case None
  with assms show ?thesis by (simp add: alarm_def)
next
  case (Some ev)
  with assms show ?thesis
    by (cases "getTime D (scheduled_time ev)")
       (auto simp: alarm_def Let_def num_gt_def split: if_splits)
qed

lemma alarm_keeps_event:
  assumes "getEvent s = Some ev"
    and "\<not> num_gt (Num (now w)) (getTime D (scheduled_time ev))"
  shows "event (alarm D w s) \<noteq> []"
proof -
  from assms(1) have ne: "event s \<noteq> []" by (auto simp: getEvent_def)
  from alarm_try_log [of D w ev "s\<lparr>armed := None\<rparr>"] ne
  have "event (alarm_try D w ev (s\<lparr>armed := None\<rparr>)) \<noteq> []" by (auto split: if_splits)
  with assms show ?thesis by (simp add: alarm_def Let_def)
qed

text \<open>
  Claim C9 is the rule that the comment in \<open>alarm\<close> gives, \<open>Schedule next alarm in 30
  minutes (if event hasn't passed)\<close>, and the guard \<open>nextAlarm < eventTime\<close> does not
  follow it. The run is scheduled for 11:00; the wake at 10:50 finds its row, the
  scheduled time has not passed, and no wake is armed. Likewise after the wakes at
  10:00 and 10:30: nothing is armed and the row stays in the table.
\<close>

theorem alarm_last_half_hour:
  "getEvent monitored = Some (new_row booking)
   \<and> num_le (Num (now wake_1050)) (getTime utc (scheduled_time (new_row booking)))
   \<and> armed (alarm utc wake_1050 monitored) = None
   \<and> armed (alarm utc wake_1050 monitored) \<noteq> Some (Num (now wake_1050 + 30 * 60 * 1000))
   \<and> length (event (alarm utc wake_1050 monitored)) = 1
   \<and> armed (alarms utc [wake_1000, wake_1030] monitored) = None
   \<and> length (event (alarms utc [wake_1000, wake_1030] monitored)) = 1"
  by code_simp

text \<open>
  Claim C10: \<open>handleInitialize\<close> leaves exactly one row with the id of the request,
  built from the request alone and with the alert flag 0. In particular, when the
  object held the row of that id with its alert already sent, the table afterwards
  holds the new row only, and a wake that then meets a drop of 15 points or more
  calls \<open>sendDeteriorationEmail\<close> again: the flag goes from 0 to 1 once per
  initialization, not once per event id.
\<close>

theorem handleInitialize_resets_alert:
  "filter (\<lambda>x. row_id x = body_id body) (event (handleInitialize D n1 n2 body s)) = [new_row body]
   \<and> alert_sent (new_row body) = 0
   \<and> (event s = [r] \<and> row_id r = body_id body \<and> alert_sent r = 1 \<longrightarrow>
        event (handleInitialize D n1 n2 body s) = [new_row body]
        \<and> (fetched w = Some fc
            \<and> computeScoreForHour D fc (InitBody.scheduledTime body) (InitBody.mode body) = Some cur
            \<and> InitBody.initialScore body - cur \<ge> 15
            \<and> resendApiKey body \<noteq> []
            \<and> \<not> num_gt (Num (now w)) (getTime D (InitBody.scheduledTime body))
            \<and> findBestAlternative D (now_search w) fc (InitBody.scheduledTime body) (InitBody.mode body)
                = Some alt
            \<longrightarrow> sent_log (alarm D w (handleInitialize D n1 n2 body s))
                  = sent_log s @
                    [(\<lparr>DeteriorationData.email = InitBody.email body,
                       DeteriorationData.mode = InitBody.mode body,
                       DeteriorationData.scheduledTime = InitBody.scheduledTime body,
                       DeteriorationData.durationMinutes = InitBody.durationMinutes body,
                       DeteriorationData.locationName = InitBody.locationName body,
                       DeteriorationData.initialScore = InitBody.initialScore body,
                       currentScore = cur, alternative = alt\<rparr>,
                      resendApiKey body, send_ok w)]))"
proof (intro conjI impI)
  show "filter (\<lambda>x. row_id x = body_id body) (event (handleInitialize D n1 n2 body s)) = [new_row body]"
    by (simp add: handleInitialize_def Let_def insert_or_replace_def new_row_def)
  show "alert_sent (new_row body) = 0" by (simp add: new_row_def)
next
  assume old: "event s = [r] \<and> row_id r = body_id body \<and> alert_sent r = 1"
  then show tab: "event (handleInitialize D n1 n2 body s) = [new_row body]"
    by (simp add: handleInitialize_def Let_def insert_or_replace_def new_row_def)
  assume w: "fetched w = Some fc
            \<and> computeScoreForHour D fc (InitBody.scheduledTime body) (InitBody.mode body) = Some cur
            \<and> InitBody.initialScore body - cur \<ge> 15
            \<and> resendApiKey body \<noteq> []
            \<and> \<not> num_gt (Num (now w)) (getTime D (InitBody.scheduledTime body))
            \<and> findBestAlternative D (now_search w) fc (InitBody.scheduledTime body) (InitBody.mode body)
                = Some alt"
  have log: "sent_log (handleInitialize D n1 n2 body s) = sent_log s"
    by (simp add: handleInitialize_def Let_def)
  have ev: "getEvent (handleInitialize D n1 n2 body s) = Some (new_row body)"
    using tab by (simp add: getEvent_def)
  show "sent_log (alarm D w (handleInitialize D n1 n2 body s))
                  = sent_log s @
                    [(\<lparr>DeteriorationData.email = InitBody.email body,
                       DeteriorationData.mode = InitBody.mode body,
                       DeteriorationData.scheduledTime = InitBody.scheduledTime body,
                       DeteriorationData.durationMinutes = InitBody.durationMinutes body,
                       DeteriorationData.locationName = InitBody.locationName body,
                       DeteriorationData.initialScore = InitBody.initialScore body,
                       currentScore = cur, alternative = alt\<rparr>,
                      resendApiKey body, send_ok w)]"
    using w ev log by (simp add: alarm_def Let_def alarm_try_def new_row_def)
qed

lemma no_data_score:
  "computeScoreForHour utc no_data (InitBody.scheduledTime booking) (InitBody.mode booking) = Some 50"
  by code_simp

lemma no_data_alternative:
  "findBestAlternative utc (now_search wake_1000) no_data (InitBody.scheduledTime booking)
     (InitBody.mode booking) = Some None"
  by code_simp

theorem handleInitialize_resets_alert_witness:
  "event alerted = [(new_row booking)\<lparr>alert_sent := 1\<rparr>]
   \<and> row_id ((new_row booking)\<lparr>alert_sent := 1\<rparr>) = body_id booking
   \<and> alert_sent ((new_row booking)\<lparr>alert_sent := 1\<rparr>) = 1
   \<and> fetched wake_1000 = Some no_data
   \<and> computeScoreForHour utc no_data (InitBody.scheduledTime booking) (InitBody.mode booking) = Some 50
   \<and> InitBody.initialScore booking - 50 \<ge> 15
   \<and> resendApiKey booking \<noteq> []
   \<and> \<not> num_gt (Num (now wake_1000)) (getTime utc (InitBody.scheduledTime booking))
   \<and> findBestAlternative utc (now_search wake_1000) no_data (InitBody.scheduledTime booking)
        (InitBody.mode booking) = Some None
   \<and> event (handleInitialize utc 1749978000000 1749978000000 booking alerted) = [new_row booking]
   \<and> alert_sent (new_row booking) = 0
   \<and> sent_log (alarm utc wake_1000 (handleInitialize utc 1749978000000 1749978000000 booking alerted))
       = [(\<lparr>DeteriorationData.email = ''runner@example.org'',
             DeteriorationData.mode = Running,
             DeteriorationData.scheduledTime = ''2025-06-15T11:00'',
             DeteriorationData.durationMinutes = 45,
             DeteriorationData.locationName = ''Park'',
             DeteriorationData.initialScore = 80,
             currentScore = 50, alternative = None\<rparr>,
            ''re_1'', True)]"
proof -
  have a: "event alerted = [(new_row booking)\<lparr>alert_sent := 1\<rparr>]
      \<and> row_id ((new_row booking)\<lparr>alert_sent := 1\<rparr>) = body_id booking
      \<and> alert_sent ((new_row booking)\<lparr>alert_sent := 1\<rparr>) = 1"
    by (simp add: alerted_def new_row_def)
  have b: "fetched wake_1000 = Some no_data
      \<and> computeScoreForHour utc no_data (InitBody.scheduledTime booking) (InitBody.mode booking) = Some 50
      \<and> InitBody.initialScore booking - 50 \<ge> 15
      \<and> resendApiKey booking \<noteq> []
      \<and> \<not> num_gt (Num (now wake_1000)) (getTime utc (InitBody.scheduledTime booking))
      \<and> findBestAlternative utc (now_search wake_1000) no_data (InitBody.scheduledTime booking)
           (InitBody.mode booking) = Some None"
    using no_data_score no_data_alternative
    by (simp add: wake_1000_def booking_def utc_def utc_1100 num_gt_def)
  from handleInitialize_resets_alert
    [of booking utc 1749978000000 1749978000000 alerted "(new_row booking)\<lparr>alert_sent := 1\<rparr>"
      wake_1000 no_data 50 None]
    a b
  show ?thesis by (simp add: booking_def alerted_def wake_1000_def)
qed

end
